theory Spec2Isabelle
  imports Main
begin

section \<open>Data model (queuectl/db.py, init\_db)\<close>

text \<open>
  Timestamps are stored as ISO-8601 text produced by \<open>datetime.utcnow().isoformat() + "Z"\<close>.
  They are modelled by the instant they denote, in microseconds since the epoch (the
  resolution of Python's \<open>datetime\<close>).
\<close>

type_synonym timestamp = int

text \<open>
  SQLite's \<open>datetime(x)\<close> renders a time value as \<open>YYYY-MM-DD HH:MM:SS\<close>: the fractional
  part of the second is dropped. The SQL comparisons of the source are all made between
  such renderings; \<open>sql_datetime\<close> is the whole second a rendering shows.
\<close>

definition sql_datetime :: "timestamp \<Rightarrow> int" where
  "sql_datetime t = t div 1000000"

text \<open>The \<open>CHECK (state IN (...))\<close> constraint of the jobs table.\<close>

datatype job_state = Pending | Processing | Completed | Failed | Dead

text \<open>
  One row of the \<open>jobs\<close> table. \<open>attempts\<close> is only ever written as \<open>0\<close> (insert,
  requeue) or \<open>attempts + 1\<close>, hence a natural number.
\<close>

record job =
  job_id :: string
  command :: string
  state :: job_state
  attempts :: nat
  max_retries :: int
  created_at :: timestamp
  updated_at :: timestamp
  retry_at :: "timestamp option"
  run_at :: "timestamp option"
  priority :: int
  locked_by :: "int option"
  locked_at :: "timestamp option"
  last_error :: "string option"
  output_path :: "string option"
  stdout_log :: "string option"
  stderr_log :: "string option"
  exit_code :: "int option"
  completed_at :: "timestamp option"

text \<open>One row of the \<open>dlq\<close> table; the payload is the JSON dump of the job row read
  at the moment of the move.\<close>

record dlq_entry =
  dlq_id :: string
  dlq_job_id :: string
  moved_at :: timestamp
  reason :: string
  payload :: job

text \<open>
  What the code takes from outside the store: the wall clock (\<open>datetime.utcnow()\<close> and
  SQLite's \<open>'now'\<close>), \<open>uuid.uuid4()\<close>, and the subprocess runner of queuectl/exec.py
  (exit code, stdout, stderr). Each is an arbitrary function of the number of readings
  made so far, which the store state counts in \<open>ticks\<close>.
\<close>

record env =
  clock :: "nat \<Rightarrow> timestamp"
  uuid4 :: "nat \<Rightarrow> string"
  execute_command :: "nat \<Rightarrow> string \<Rightarrow> int \<times> string \<times> string"

text \<open>
  The committed content of the database file, the count of outside readings, and whether
  the connection of the calling thread has a transaction open. The \<open>sqlite3\<close> module
  opens one before an \<open>INSERT\<close>, \<open>UPDATE\<close> or \<open>DELETE\<close>; \<open>conn.commit()\<close> and
  \<open>conn.rollback()\<close> close it, and a statement that raises leaves it open. A
  transaction left open this way holds no change.
\<close>

record world =
  jobs :: "job list"
  dlq :: "dlq_entry list"
  ticks :: nat
  in_transaction :: bool

text \<open>The values \<open>Config.get_int\<close> returns for the three keys the worker reads.\<close>

record config =
  backoff_base :: int
  max_backoff_seconds :: int
  lock_lease_seconds :: int

text \<open>The exceptions the modelled code can raise.\<close>

datatype error = IntegrityError | TypeError | OverflowError

text \<open>
  A Python \<open>int\<close> bound to a statement parameter must be a 64-bit signed integer;
  otherwise the binding raises \<open>OverflowError\<close> and the statement does not run.
\<close>

definition fits_int64 :: "int \<Rightarrow> bool" where
  "fits_int64 i \<longleftrightarrow> - 9223372036854775808 \<le> i \<and> i < 9223372036854775808"

section \<open>Store primitives (queuectl/db.py)\<close>

text \<open>Every function below that writes ends with \<open>conn.commit()\<close>, which closes the
  transaction.\<close>

definition now_timestamp :: "env \<Rightarrow> world \<Rightarrow> timestamp \<times> world" where
  "now_timestamp e w = (clock e (ticks w), w\<lparr>ticks := Suc (ticks w)\<rparr>)"

text \<open>SQLite's own reading of the clock for \<open>datetime('now')\<close>.\<close>

definition sqlite_now :: "env \<Rightarrow> world \<Rightarrow> timestamp \<times> world" where
  "sqlite_now e w = (clock e (ticks w), w\<lparr>ticks := Suc (ticks w)\<rparr>)"

definition new_uuid :: "env \<Rightarrow> world \<Rightarrow> string \<times> world" where
  "new_uuid e w = (uuid4 e (ticks w), w\<lparr>ticks := Suc (ticks w)\<rparr>)"

definition run_command :: "env \<Rightarrow> string \<Rightarrow> world \<Rightarrow> (int \<times> string \<times> string) \<times> world" where
  "run_command e cmd w = (execute_command e (ticks w) cmd, w\<lparr>ticks := Suc (ticks w)\<rparr>)"

text \<open>\<open>UPDATE jobs SET ... WHERE id = ?\<close>: every row with that id gets the assignment.\<close>

definition update_jobs :: "string \<Rightarrow> (job \<Rightarrow> job) \<Rightarrow> job list \<Rightarrow> job list" where
  "update_jobs jid f js = map (\<lambda>j. if job_id j = jid then f j else j) js"

text \<open>\<open>SELECT * FROM jobs WHERE id = ?\<close> followed by \<open>fetchone()\<close>.\<close>

definition get_job :: "string \<Rightarrow> world \<Rightarrow> job option" where
  "get_job jid w = find (\<lambda>j. job_id j = jid) (jobs w)"

text \<open>\<open>SELECT * FROM dlq WHERE job_id = ?\<close> followed by \<open>fetchone()\<close>.\<close>

definition get_dlq_job :: "string \<Rightarrow> world \<Rightarrow> dlq_entry option" where
  "get_dlq_job jid w = find (\<lambda>d. dlq_job_id d = jid) (dlq w)"

text \<open>
  \<open>insert_job\<close>: the binding of \<open>max_retries\<close> and \<open>priority\<close>, the primary key on
  \<open>id\<close> and the \<open>CHECK\<close> on \<open>priority\<close> make the \<open>INSERT\<close> raise, which leaves the
  transaction open; all other columns take their defaults.
\<close>

definition insert_job ::
  "env \<Rightarrow> string \<Rightarrow> string \<Rightarrow> int \<Rightarrow> int \<Rightarrow> timestamp option \<Rightarrow> world \<Rightarrow> error option \<times> world" where
  "insert_job e jid cmd retries prio run w =
     (let (now, w1) = now_timestamp e w in
      if \<not> fits_int64 retries \<or> \<not> fits_int64 prio
      then (Some OverflowError, w1\<lparr>in_transaction := True\<rparr>)
      else if find (\<lambda>j. job_id j = jid) (jobs w1) \<noteq> None \<or> \<not> (0 \<le> prio \<and> prio \<le> 10)
      then (Some IntegrityError, w1\<lparr>in_transaction := True\<rparr>)
      else (None, w1\<lparr>jobs := jobs w1 @
        [\<lparr>job_id = jid, command = cmd, state = Pending, attempts = 0, max_retries = retries,
          created_at = now, updated_at = now, retry_at = None, run_at = run, priority = prio,
          locked_by = None, locked_at = None, last_error = None, output_path = None,
          stdout_log = None, stderr_log = None, exit_code = None, completed_at = None\<rparr>],
        in_transaction := False\<rparr>))"

definition update_job_state :: "env \<Rightarrow> string \<Rightarrow> job_state \<Rightarrow> world \<Rightarrow> world" where
  "update_job_state e jid st w =
     (let (now, w1) = now_timestamp e w in
      w1\<lparr>jobs := update_jobs jid (\<lambda>j. j\<lparr>state := st, updated_at := now\<rparr>) (jobs w1),
         in_transaction := False\<rparr>)"

definition increment_job_attempts :: "env \<Rightarrow> string \<Rightarrow> world \<Rightarrow> world" where
  "increment_job_attempts e jid w =
     (let (now, w1) = now_timestamp e w in
      w1\<lparr>jobs := update_jobs jid (\<lambda>j. j\<lparr>attempts := attempts j + 1, updated_at := now\<rparr>) (jobs w1),
         in_transaction := False\<rparr>)"

definition update_job_error :: "env \<Rightarrow> string \<Rightarrow> string \<Rightarrow> world \<Rightarrow> world" where
  "update_job_error e jid err w =
     (let (now, w1) = now_timestamp e w in
      w1\<lparr>jobs := update_jobs jid (\<lambda>j. j\<lparr>last_error := Some err, updated_at := now\<rparr>) (jobs w1),
         in_transaction := False\<rparr>)"

definition set_job_retry_at :: "env \<Rightarrow> string \<Rightarrow> timestamp \<Rightarrow> world \<Rightarrow> world" where
  "set_job_retry_at e jid r w =
     (let (now, w1) = now_timestamp e w in
      w1\<lparr>jobs := update_jobs jid (\<lambda>j. j\<lparr>retry_at := Some r, updated_at := now\<rparr>) (jobs w1),
         in_transaction := False\<rparr>)"

definition unlock_job :: "env \<Rightarrow> string \<Rightarrow> world \<Rightarrow> world" where
  "unlock_job e jid w =
     (let (now, w1) = now_timestamp e w in
      w1\<lparr>jobs := update_jobs jid
        (\<lambda>j. j\<lparr>locked_by := None, locked_at := None, updated_at := now\<rparr>) (jobs w1),
         in_transaction := False\<rparr>)"

definition update_job_output :: "env \<Rightarrow> string \<Rightarrow> string \<Rightarrow> string \<Rightarrow> int \<Rightarrow> world \<Rightarrow> world" where
  "update_job_output e jid out err code w =
     (let (now, w1) = now_timestamp e w in
      w1\<lparr>jobs := update_jobs jid
        (\<lambda>j. j\<lparr>stdout_log := Some out, stderr_log := Some err, exit_code := Some code,
               updated_at := now\<rparr>) (jobs w1),
         in_transaction := False\<rparr>)"

definition update_job_completed_at :: "env \<Rightarrow> string \<Rightarrow> world \<Rightarrow> world" where
  "update_job_completed_at e jid w =
     (let (now, w1) = now_timestamp e w in
      w1\<lparr>jobs := update_jobs jid (\<lambda>j. j\<lparr>completed_at := Some now, updated_at := now\<rparr>) (jobs w1),
         in_transaction := False\<rparr>)"

subsection \<open>Dead-letter queue\<close>

text \<open>
  \<open>move_to_dlq\<close>: returns at once when the job row is missing; otherwise inserts the
  entry and marks the row dead in one transaction. The primary key on \<open>dlq.id\<close> makes
  the \<open>INSERT\<close> raise when the drawn uuid is already in use, before anything is written;
  the transaction then stays open.
\<close>

definition move_to_dlq :: "env \<Rightarrow> string \<Rightarrow> string \<Rightarrow> world \<Rightarrow> error option \<times> world" where
  "move_to_dlq e jid why w =
     (case get_job jid w of
        None \<Rightarrow> (None, w)
      | Some job \<Rightarrow>
          (let (now, w1) = now_timestamp e w;
               (did, w2) = new_uuid e w1 in
           if find (\<lambda>d. dlq_id d = did) (dlq w2) \<noteq> None
           then (Some IntegrityError, w2\<lparr>in_transaction := True\<rparr>)
           else (None, w2\<lparr>dlq := dlq w2 @
                   [\<lparr>dlq_id = did, dlq_job_id = jid, moved_at = now, reason = why, payload = job\<rparr>],
                 jobs := update_jobs jid (\<lambda>j. j\<lparr>state := Dead, updated_at := now\<rparr>) (jobs w2),
                 in_transaction := False\<rparr>)))"

text \<open>\<open>requeue_from_dlq\<close>: \<open>False\<close> when no entry names the job, else reset and delete.\<close>

definition requeue_from_dlq :: "env \<Rightarrow> string \<Rightarrow> world \<Rightarrow> bool \<times> world" where
  "requeue_from_dlq e jid w =
     (case get_dlq_job jid w of
        None \<Rightarrow> (False, w)
      | Some entry \<Rightarrow>
          (let (now, w1) = now_timestamp e w in
           (True, w1\<lparr>jobs := update_jobs jid
                     (\<lambda>j. j\<lparr>state := Pending, attempts := 0, locked_by := None, locked_at := None,
                            retry_at := None, updated_at := now\<rparr>) (jobs w1),
                   dlq := filter (\<lambda>d. dlq_job_id d \<noteq> jid) (dlq w1),
                   in_transaction := False\<rparr>)))"

section \<open>Claimer (queuectl/db.py, pick\_pending\_job)\<close>

text \<open>
  The lock test of the \<open>WHERE\<close> clause:
  \<open>locked_at IS NOT NULL AND datetime(locked_at) < datetime('now', '-' || ? || ' seconds')\<close>.
  A comparison with \<open>NULL\<close> selects nothing; for a negative lease the modifier reads
  \<open>'--n seconds'\<close>, which SQLite rejects, so the right-hand side is \<open>NULL\<close>.
\<close>

definition lock_stale :: "int \<Rightarrow> timestamp \<Rightarrow> job \<Rightarrow> bool" where
  "lock_stale lock_seconds now j =
     (case locked_at j of
        None \<Rightarrow> False
      | Some l \<Rightarrow> 0 \<le> lock_seconds \<and> sql_datetime l < sql_datetime now - lock_seconds)"

text \<open>The whole \<open>WHERE\<close> clause of the \<open>SELECT\<close>.\<close>

definition eligible :: "int \<Rightarrow> timestamp \<Rightarrow> job \<Rightarrow> bool" where
  "eligible lock_seconds now j \<longleftrightarrow>
     state j = Pending \<and>
     (case run_at j of None \<Rightarrow> True | Some r \<Rightarrow> sql_datetime r \<le> sql_datetime now) \<and>
     (locked_by j = None \<or> lock_stale lock_seconds now j)"

text \<open>
  \<open>ORDER BY created_at\<close> compares the column as text, with no \<open>datetime(...)\<close> around
  it. The texts are \<open>YYYY-MM-DDTHH:MM:SS.ffffffZ\<close>, except that \<open>isoformat()\<close> leaves
  the fraction out when the microsecond is 0: \<open>YYYY-MM-DDTHH:MM:SSZ\<close>. Up to the second
  the texts order as the instants do; within one second the fractions order as numbers,
  and the text without a fraction sorts last, since \<open>Z\<close> follows \<open>.\<close>.
\<close>

definition text_fraction :: "timestamp \<Rightarrow> int" where
  "text_fraction t = (if t mod 1000000 = 0 then 1000000 else t mod 1000000)"

definition text_before :: "timestamp \<Rightarrow> timestamp \<Rightarrow> bool" where
  "text_before a b \<longleftrightarrow>
     a div 1000000 < b div 1000000 \<or>
     (a div 1000000 = b div 1000000 \<and> text_fraction a < text_fraction b)"

text \<open>
  The \<open>ORDER BY\<close> clause: \<open>CASE WHEN priority > 0 THEN 0 ELSE 1 END\<close>, then
  \<open>priority DESC\<close>, then \<open>created_at ASC\<close>. \<open>precedes a b\<close> says that row \<open>a\<close> sorts
  strictly before row \<open>b\<close>.
\<close>

definition sort_class :: "job \<Rightarrow> int" where
  "sort_class j = (if priority j > 0 then 0 else 1)"

definition precedes :: "job \<Rightarrow> job \<Rightarrow> bool" where
  "precedes a b \<longleftrightarrow>
     sort_class a < sort_class b \<or>
     (sort_class a = sort_class b \<and>
       (priority a > priority b \<or>
        (priority a = priority b \<and> text_before (created_at a) (created_at b))))"

text \<open>\<open>LIMIT 1\<close> of the sorted rows: the first row that no other row precedes.\<close>

fun first_in_order :: "job \<Rightarrow> job list \<Rightarrow> job" where
  "first_in_order best [] = best"
| "first_in_order best (j # js) = first_in_order (if precedes j best then j else best) js"

definition select_job :: "int \<Rightarrow> timestamp \<Rightarrow> job list \<Rightarrow> string option" where
  "select_job lock_seconds now js =
     (case filter (eligible lock_seconds now) js of
        [] \<Rightarrow> None
      | c # cs \<Rightarrow> Some (job_id (first_in_order c cs)))"

text \<open>
  \<open>pick_pending_job\<close>, with its \<open>try\<close> and \<open>except Exception\<close>. In the \<open>try\<close>:
  \<open>BEGIN IMMEDIATE\<close> raises when the connection already has a transaction open; the
  \<open>SELECT\<close>, which reads SQLite's clock, raises when \<open>lock_seconds\<close> cannot be bound;
  with no row selected the function commits and returns \<open>None\<close>; otherwise it reads
  \<open>now_timestamp()\<close> and runs the \<open>UPDATE\<close>, which raises when \<open>worker_pid\<close> cannot be
  bound, commits, and fetches the row again with \<open>get_job\<close>. The \<open>except\<close> branch rolls
  back, which closes the transaction, and returns \<open>None\<close>.
\<close>

definition pick_pending_job :: "env \<Rightarrow> int \<Rightarrow> int \<Rightarrow> world \<Rightarrow> job option \<times> world" where
  "pick_pending_job e worker_pid lock_seconds w =
     (if in_transaction w then (None, w\<lparr>in_transaction := False\<rparr>)
      else if \<not> fits_int64 lock_seconds then (None, w)
      else
        (let (sel_now, w1) = sqlite_now e w in
         case select_job lock_seconds sel_now (jobs w1) of
           None \<Rightarrow> (None, w1)
         | Some jid \<Rightarrow>
             (let (now, w2) = now_timestamp e w1 in
              if \<not> fits_int64 worker_pid then (None, w2)
              else
                (let w3 = w2\<lparr>jobs := update_jobs jid
                           (\<lambda>j. j\<lparr>locked_by := Some worker_pid, locked_at := Some now,
                                  state := Processing, updated_at := now\<rparr>) (jobs w2)\<rparr>
                 in (get_job jid w3, w3)))))"

section \<open>Scheduler (queuectl/scheduler.py)\<close>

text \<open>The \<open>WHERE\<close> clause of \<open>move_ready_jobs_to_pending\<close>.\<close>

definition retry_ready :: "timestamp \<Rightarrow> job \<Rightarrow> bool" where
  "retry_ready now j \<longleftrightarrow>
     state j = Pending \<and>
     (case retry_at j of None \<Rightarrow> False | Some r \<Rightarrow> sql_datetime r < sql_datetime now)"

text \<open>The \<open>UPDATE\<close> statement of \<open>move_ready_jobs_to_pending\<close> with \<open>'now'\<close> bound.\<close>

definition promote_rows :: "timestamp \<Rightarrow> job list \<Rightarrow> job list" where
  "promote_rows now js =
     map (\<lambda>j. if retry_ready now j
              then j\<lparr>state := Pending, locked_by := None, locked_at := None\<rparr> else j) js"

definition move_ready_jobs_to_pending :: "env \<Rightarrow> world \<Rightarrow> nat \<times> world" where
  "move_ready_jobs_to_pending e w =
     (let (now, w1) = sqlite_now e w in
      (length (filter (retry_ready now) (jobs w1)),
       w1\<lparr>jobs := promote_rows now (jobs w1), in_transaction := False\<rparr>))"

section \<open>Backoff (queuectl/utils.py)\<close>

definition calculate_backoff :: "nat \<Rightarrow> int \<Rightarrow> int \<Rightarrow> int" where
  "calculate_backoff att base max_backoff = min (base ^ att) max_backoff"

text \<open>The range of Python's \<open>datetime\<close>, years 1 to 9999, in microseconds since the epoch.\<close>

definition datetime_min :: timestamp where
  "datetime_min = - 62135596800000000"

definition datetime_max :: timestamp where
  "datetime_max = 253402300799999999"

text \<open>
  \<open>calculate_retry_at\<close>: \<open>datetime.utcnow() + timedelta(seconds=backoff_seconds)\<close>, which
  raises \<open>OverflowError\<close> when the sum is not a \<open>datetime\<close>.
\<close>

definition calculate_retry_at ::
  "env \<Rightarrow> nat \<Rightarrow> int \<Rightarrow> int \<Rightarrow> world \<Rightarrow> (error + timestamp) \<times> world" where
  "calculate_retry_at e att base max_backoff w =
     (let backoff_seconds = calculate_backoff att base max_backoff;
          (now, w1) = now_timestamp e w;
          r = now + 1000000 * backoff_seconds
      in if datetime_min \<le> r \<and> r \<le> datetime_max then (Inr r, w1)
         else (Inl OverflowError, w1))"

section \<open>Worker (queuectl/worker.py)\<close>

text \<open>Decimal rendering of an integer, as an f-string does.\<close>

fun digits_of :: "nat \<Rightarrow> string" where
  "digits_of n =
     (if n < 10 then [''0123456789'' ! n]
      else digits_of (n div 10) @ [''0123456789'' ! (n mod 10)])"

definition str_int :: "int \<Rightarrow> string" where
  "str_int i = (if i < 0 then CHR ''-'' # digits_of (nat (- i)) else digits_of (nat i))"

text \<open>\<open>str(e)\<close> of a caught exception.\<close>

fun str_error :: "error \<Rightarrow> string" where
  "str_error IntegrityError = ''UNIQUE constraint failed: dlq.id''"
| "str_error TypeError = CHR 0x27 # ''NoneType'' @ CHR 0x27 # '' object is not subscriptable''"
| "str_error OverflowError = ''date value out of range''"

definition handle_job_success :: "env \<Rightarrow> string \<Rightarrow> string \<Rightarrow> world \<Rightarrow> world" where
  "handle_job_success e jid output w =
     unlock_job e jid (update_job_completed_at e jid (update_job_state e jid Completed w))"

text \<open>
  \<open>_handle_job_failure\<close>: the job passed in is overwritten by a fresh \<open>get_job\<close>;
  subscripting \<open>None\<close> raises \<open>TypeError\<close>.
\<close>

definition handle_job_failure ::
  "env \<Rightarrow> config \<Rightarrow> string \<Rightarrow> job \<Rightarrow> string \<Rightarrow> world \<Rightarrow> error option \<times> world" where
  "handle_job_failure e cfg jid job0 err w =
     (case get_job jid w of
        None \<Rightarrow> (Some TypeError, w)
      | Some job \<Rightarrow>
          (let att = attempts job;
               retries = max_retries job;
               w1 = update_job_error e jid err w
           in if int att < retries
              then (case calculate_retry_at e att (backoff_base cfg) (max_backoff_seconds cfg) w1 of
                      (Inl ex, w2) \<Rightarrow> (Some ex, w2)
                    | (Inr r, w2) \<Rightarrow>
                        (None, unlock_job e jid
                                 (update_job_state e jid Pending (set_job_retry_at e jid r w2))))
              else move_to_dlq e jid (''Max retries exceeded: '' @ err) w1))"

definition execute_job :: "env \<Rightarrow> config \<Rightarrow> job \<Rightarrow> world \<Rightarrow> error option \<times> world" where
  "execute_job e cfg job w =
     (let jid = job_id job;
          cmd = command job;
          w1 = increment_job_attempts e jid w;
          ((code, out, err), w2) = run_command e cmd w1;
          w3 = update_job_output e jid out err code w2
      in if code = 0 then (None, handle_job_success e jid out w3)
         else handle_job_failure e cfg jid job (''Exit code '' @ str_int code @ '': '' @ err) w3)"

definition handle_job_error :: "env \<Rightarrow> config \<Rightarrow> string \<Rightarrow> string \<Rightarrow> world \<Rightarrow> error option \<times> world" where
  "handle_job_error e cfg jid err w =
     (case get_job jid w of
        None \<Rightarrow> (None, w)
      | Some job \<Rightarrow> handle_job_failure e cfg jid job err w)"

text \<open>
  \<open>_process_one_job\<close>: an exception of \<open>_execute_job\<close> is caught and handed to
  \<open>_handle_job_error\<close>; one raised there reaches the caller.
\<close>

definition process_one_job :: "env \<Rightarrow> config \<Rightarrow> int \<Rightarrow> world \<Rightarrow> error option \<times> world" where
  "process_one_job e cfg pid w =
     (case pick_pending_job e pid (lock_lease_seconds cfg) w of
        (None, w1) \<Rightarrow> (None, w1)
      | (Some job, w1) \<Rightarrow>
          (case execute_job e cfg job w1 of
             (None, w2) \<Rightarrow> (None, w2)
           | (Some ex, w2) \<Rightarrow> handle_job_error e cfg (job_id job) (str_error ex) w2))"

text \<open>
  \<open>Worker.run\<close>: the loop body runs until a signal sets \<open>shutdown_requested\<close>; \<open>n\<close> is
  the number of iterations made before that. An exception of the body is logged and
  the loop goes on.
\<close>

fun run :: "env \<Rightarrow> config \<Rightarrow> int \<Rightarrow> nat \<Rightarrow> world \<Rightarrow> world" where
  "run e cfg pid 0 w = w"
| "run e cfg pid (Suc n) w = run e cfg pid n (snd (process_one_job e cfg pid w))"

section \<open>Eligibility as the specification words it\<close>

text \<open>
  The specification's eligibility rule, read on the instants themselves: state pending,
  \<open>run_at\<close> null or \<open>run_at \<le> now\<close>, and \<open>locked_by\<close> null or
  \<open>locked_at + lease_seconds < now\<close>. It is compared with \<open>eligible\<close> below.
\<close>

definition spec_eligible :: "int \<Rightarrow> timestamp \<Rightarrow> job \<Rightarrow> bool" where
  "spec_eligible lease_seconds now j \<longleftrightarrow>
     state j = Pending \<and>
     (case run_at j of None \<Rightarrow> True | Some r \<Rightarrow> r \<le> now) \<and>
     (locked_by j = None \<or>
      (case locked_at j of None \<Rightarrow> False | Some l \<Rightarrow> l + 1000000 * lease_seconds < now))"


section \<open>Dead-letter invariant\<close>

text \<open>The number of dead-letter entries that name a job.\<close>

definition dlq_count :: "string \<Rightarrow> world \<Rightarrow> nat" where
  "dlq_count jid w = length (filter (\<lambda>d. dlq_job_id d = jid) (dlq w))"

text \<open>
  Invariant 5 of the specification: a job in state dead has exactly one dead-letter
  entry, a job in any other state has none.
\<close>

definition dlq_inv :: "world \<Rightarrow> bool" where
  "dlq_inv w \<longleftrightarrow>
     (\<forall>j\<in>set (jobs w). dlq_count (job_id j) w = (if state j = Dead then 1 else 0))"

text \<open>No row with this id is in state dead.\<close>

definition not_dead :: "string \<Rightarrow> world \<Rightarrow> bool" where
  "not_dead jid w \<longleftrightarrow> (\<forall>j\<in>set (jobs w). job_id j = jid \<longrightarrow> state j \<noteq> Dead)"

text \<open>What the invariant reads of a store: per row its id and whether it is dead, and
  per dead-letter entry the job it names.\<close>

definition dead_flags :: "world \<Rightarrow> (string \<times> bool) list" where
  "dead_flags w = map (\<lambda>j. (job_id j, state j = Dead)) (jobs w)"

definition dlq_owners :: "world \<Rightarrow> string list" where
  "dlq_owners w = map dlq_job_id (dlq w)"

section \<open>Concrete stores\<close>

text \<open>A clock that advances one second per reading, and a runner whose command fails.\<close>

definition env0 :: env where
  "env0 = \<lparr>clock = (\<lambda>n. 1000000 * int n),
           uuid4 = (\<lambda>n. if n < 4 then ''uuid-a'' else ''uuid-b''),
           execute_command = (\<lambda>n cmd. (1, [], ''boom''))\<rparr>"

definition cfg0 :: config where
  "cfg0 = \<lparr>backoff_base = 2, max_backoff_seconds = 300, lock_lease_seconds = 300\<rparr>"

definition empty_world :: world where
  "empty_world = \<lparr>jobs = [], dlq = [], ticks = 0, in_transaction = False\<rparr>"

text \<open>Job \<open>d\<close> of scenario S3, enqueued into the empty store.\<close>

definition enqueued_world :: world where
  "enqueued_world = snd (insert_job env0 ''d'' ''false'' 1 0 None empty_world)"

text \<open>The same job moved to the dead-letter queue by hand.\<close>

definition dead_world :: world where
  "dead_world = snd (move_to_dlq env0 ''d'' ''Test reason'' enqueued_world)"

text \<open>The row \<open>pick_pending_job\<close> returns for job \<open>d\<close> to worker 7.\<close>

definition picked_d :: job where
  "picked_d = \<lparr>job_id = ''d'', command = ''false'', state = Processing, attempts = 0,
      max_retries = 1, created_at = 0, updated_at = 2000000, retry_at = None, run_at = None,
      priority = 0, locked_by = Some 7, locked_at = Some 2000000, last_error = None,
      output_path = None, stdout_log = None, stderr_log = None, exit_code = None,
      completed_at = None\<rparr>"

text \<open>A clock that advances a tenth of a second per reading, starting at 0.1 s.\<close>

definition env_sub :: env where
  "env_sub = \<lparr>clock = (\<lambda>n. 100000 * (int n + 1)), uuid4 = (\<lambda>n. ''uuid-a''),
              execute_command = (\<lambda>n cmd. (1, [], ''boom''))\<rparr>"

text \<open>A job scheduled for 0.9 s, enqueued at 0.1 s.\<close>

definition scheduled_world :: world where
  "scheduled_world = snd (insert_job env_sub ''s'' ''true'' 3 0 (Some 900000) empty_world)"

text \<open>Scenario S5: \<open>p0\<close> with priority 0 enqueued first, \<open>p10\<close> with priority 10 after.\<close>

definition priority_world :: world where
  "priority_world =
     snd (insert_job env0 ''p10'' ''sleep 0'' 3 10 None
       (snd (insert_job env0 ''p0'' ''sleep 0'' 3 0 None empty_world)))"

text \<open>A job with \<open>max_retries = 3\<close>, claimed by worker 7.\<close>

definition claimed_world :: world where
  "claimed_world =
     snd (pick_pending_job env0 7 300
       (snd (insert_job env0 ''r'' ''false'' 3 0 None empty_world)))"

definition picked_r :: job where
  "picked_r = \<lparr>job_id = ''r'', command = ''false'', state = Processing, attempts = 0,
      max_retries = 3, created_at = 0, updated_at = 2000000, retry_at = None, run_at = None,
      priority = 0, locked_by = Some 7, locked_at = Some 2000000, last_error = None,
      output_path = None, stdout_log = None, stderr_log = None, exit_code = None,
      completed_at = None\<rparr>"

text \<open>The same job after one failing execution by worker 7.\<close>

definition retry_world :: world where
  "retry_world =
     snd (process_one_job env0 cfg0 7
       (snd (insert_job env0 ''r'' ''false'' 3 0 None empty_world)))"

text \<open>A clock that starts at 20 s and advances a tenth of a second per reading.\<close>

definition env_late :: env where
  "env_late = \<lparr>clock = (\<lambda>n. 20000000 + 100000 * int n), uuid4 = (\<lambda>n. ''uuid-a''),
               execute_command = (\<lambda>n cmd. (1, [], ''boom''))\<rparr>"

text \<open>Job \<open>d\<close> of scenario S3, claimed by worker 7.\<close>

definition claimed_d_world :: world where
  "claimed_d_world = snd (pick_pending_job env0 7 300 enqueued_world)"

text \<open>A clock that starts at 1.0 s and advances half a second per reading.\<close>

definition env_half :: env where
  "env_half = \<lparr>clock = (\<lambda>n. 1000000 + 500000 * int n), uuid4 = (\<lambda>n. ''uuid-a''),
               execute_command = (\<lambda>n cmd. (0, [], []))\<rparr>"

text \<open>Two jobs of equal priority: \<open>a\<close> enqueued at 1.0 s, then \<open>b\<close> at 1.5 s.\<close>

definition fifo_world :: world where
  "fifo_world =
     snd (insert_job env_half ''b'' ''true'' 3 0 None
       (snd (insert_job env_half ''a'' ''true'' 3 0 None empty_world)))"



section \<open>Lookups after updates\<close>

lemma find_update_jobs:
  assumes "\<And>j. job_id (f j) = job_id j"
  shows "find (\<lambda>j. job_id j = jid) (update_jobs jid f js) =
         map_option f (find (\<lambda>j. job_id j = jid) js)"
  using assms by (induction js) (simp_all add: update_jobs_def)

lemma find_update_jobs_other:
  assumes "\<And>j. job_id (f j) = job_id j" and "jid' \<noteq> jid"
  shows "find (\<lambda>j. job_id j = jid') (update_jobs jid f js) = find (\<lambda>j. job_id j = jid') js"
  using assms by (induction js) (simp_all add: update_jobs_def)

lemma find_filter_none: "find P (filter (\<lambda>x. \<not> P x) xs) = None"
  by (induction xs) simp_all

lemma find_by_id_distinct:
  "distinct (map job_id js) \<Longrightarrow> j \<in> set js \<Longrightarrow> find (\<lambda>x. job_id x = job_id j) js = Some j"
  by (induction js) (auto simp add: rev_image_eqI)


section \<open>The concrete stores, evaluated\<close>

lemmas eval_defs = insert_job_def now_timestamp_def sqlite_now_def new_uuid_def run_command_def
  get_job_def get_dlq_job_def update_jobs_def update_job_state_def increment_job_attempts_def
  update_job_error_def set_job_retry_at_def unlock_job_def update_job_output_def
  update_job_completed_at_def move_to_dlq_def requeue_from_dlq_def
  pick_pending_job_def select_job_def eligible_def lock_stale_def sql_datetime_def
  precedes_def sort_class_def text_before_def text_fraction_def
  calculate_backoff_def calculate_retry_at_def
  datetime_min_def datetime_max_def
  handle_job_success_def handle_job_failure_def execute_job_def handle_job_error_def
  process_one_job_def str_int_def fits_int64_def
  env0_def cfg0_def empty_world_def Let_def

lemma enqueued_world_eq:
  "enqueued_world = \<lparr>jobs = [\<lparr>job_id = ''d'', command = ''false'', state = Pending, attempts = 0,
      max_retries = 1, created_at = 0, updated_at = 0, retry_at = None, run_at = None,
      priority = 0, locked_by = None, locked_at = None, last_error = None, output_path = None,
      stdout_log = None, stderr_log = None, exit_code = None, completed_at = None\<rparr>],
    dlq = [], ticks = 1, in_transaction = False\<rparr>"
  by (simp add: enqueued_world_def insert_job_def fits_int64_def now_timestamp_def env0_def empty_world_def)

lemma dead_world_eq:
  "dead_world = \<lparr>jobs = [\<lparr>job_id = ''d'', command = ''false'', state = Dead, attempts = 0,
      max_retries = 1, created_at = 0, updated_at = 1000000, retry_at = None, run_at = None,
      priority = 0, locked_by = None, locked_at = None, last_error = None, output_path = None,
      stdout_log = None, stderr_log = None, exit_code = None, completed_at = None\<rparr>],
    dlq = [\<lparr>dlq_id = ''uuid-a'', dlq_job_id = ''d'', moved_at = 1000000, reason = ''Test reason'',
      payload = \<lparr>job_id = ''d'', command = ''false'', state = Pending, attempts = 0,
      max_retries = 1, created_at = 0, updated_at = 0, retry_at = None, run_at = None,
      priority = 0, locked_by = None, locked_at = None, last_error = None, output_path = None,
      stdout_log = None, stderr_log = None, exit_code = None, completed_at = None\<rparr>\<rparr>], ticks = 3, in_transaction = False\<rparr>"
  by (simp add: dead_world_def enqueued_world_eq move_to_dlq_def get_job_def now_timestamp_def
      new_uuid_def env0_def update_jobs_def)

lemma scheduled_world_eq:
  "scheduled_world = \<lparr>jobs = [\<lparr>job_id = ''s'', command = ''true'', state = Pending, attempts = 0,
      max_retries = 3, created_at = 100000, updated_at = 100000, retry_at = None,
      run_at = Some 900000,
      priority = 0, locked_by = None, locked_at = None, last_error = None, output_path = None,
      stdout_log = None, stderr_log = None, exit_code = None, completed_at = None\<rparr>],
    dlq = [], ticks = 1, in_transaction = False\<rparr>"
  by (simp add: scheduled_world_def insert_job_def fits_int64_def now_timestamp_def env_sub_def empty_world_def)

lemma priority_world_eq:
  "priority_world = \<lparr>jobs =
     [\<lparr>job_id = ''p0'', command = ''sleep 0'', state = Pending, attempts = 0,
       max_retries = 3, created_at = 0, updated_at = 0, retry_at = None, run_at = None,
       priority = 0, locked_by = None, locked_at = None, last_error = None, output_path = None,
       stdout_log = None, stderr_log = None, exit_code = None, completed_at = None\<rparr>,
      \<lparr>job_id = ''p10'', command = ''sleep 0'', state = Pending, attempts = 0,
       max_retries = 3, created_at = 1000000, updated_at = 1000000, retry_at = None, run_at = None,
       priority = 10, locked_by = None, locked_at = None, last_error = None, output_path = None,
       stdout_log = None, stderr_log = None, exit_code = None, completed_at = None\<rparr>],
    dlq = [], ticks = 2, in_transaction = False\<rparr>"
  by (simp add: priority_world_def insert_job_def fits_int64_def now_timestamp_def env0_def empty_world_def)

lemma claimed_world_eq:
  "claimed_world = \<lparr>jobs = [picked_r], dlq = [], ticks = 3, in_transaction = False\<rparr>"
  by (simp add: claimed_world_def picked_r_def eval_defs)

lemma retry_world_eq:
  "retry_world = \<lparr>jobs =
     [\<lparr>job_id = ''r'', command = ''false'', state = Pending, attempts = 1,
       max_retries = 3, created_at = 0, updated_at = 10000000, retry_at = Some 9000000,
       run_at = None, priority = 0, locked_by = None, locked_at = None,
       last_error = Some ''Exit code 1: boom'', output_path = None, stdout_log = Some [],
       stderr_log = Some ''boom'', exit_code = Some 1, completed_at = None\<rparr>],
     dlq = [], ticks = 11, in_transaction = False\<rparr>"
  by (simp add: retry_world_def eval_defs)

lemma claimed_d_world_eq: "claimed_d_world = \<lparr>jobs = [picked_d], dlq = [], ticks = 3, in_transaction = False\<rparr>"
  by (simp add: claimed_d_world_def enqueued_world_eq picked_d_def eval_defs)

lemma s3_world_eq:
  "snd (process_one_job env0 cfg0 7 enqueued_world) = \<lparr>jobs =
     [\<lparr>job_id = ''d'', command = ''false'', state = Dead, attempts = 1,
       max_retries = 1, created_at = 0, updated_at = 7000000, retry_at = None,
       run_at = None, priority = 0, locked_by = Some 7, locked_at = Some 2000000,
       last_error = Some ''Exit code 1: boom'', output_path = None, stdout_log = Some [],
       stderr_log = Some ''boom'', exit_code = Some 1, completed_at = None\<rparr>],
     dlq = [\<lparr>dlq_id = ''uuid-b'', dlq_job_id = ''d'', moved_at = 7000000,
       reason = ''Max retries exceeded: Exit code 1: boom'',
       payload = \<lparr>job_id = ''d'', command = ''false'', state = Processing, attempts = 1,
       max_retries = 1, created_at = 0, updated_at = 6000000, retry_at = None,
       run_at = None, priority = 0, locked_by = Some 7, locked_at = Some 2000000,
       last_error = Some ''Exit code 1: boom'', output_path = None, stdout_log = Some [],
       stderr_log = Some ''boom'', exit_code = Some 1, completed_at = None\<rparr>\<rparr>],
     ticks = 9, in_transaction = False\<rparr>"
  by (simp add: enqueued_world_eq eval_defs)

section \<open>Dead-letter move of a missing job\<close>

text \<open>
  C10. For every job id that has no row in the jobs table and every reason string,
  \<open>move_to_dlq\<close> returns without raising and leaves the store exactly as it was: no
  dead-letter entry is inserted and no job row is modified.
\<close>

theorem move_to_dlq_missing_job_unchanged:
  "get_job jid w = None \<Longrightarrow> move_to_dlq e jid why w = (None, w)"
  by (simp add: move_to_dlq_def)

theorem move_to_dlq_missing_job_unchanged_witness:
  "get_job ''ghost'' enqueued_world = None \<and>
   move_to_dlq env0 ''ghost'' ''gone'' enqueued_world = (None, enqueued_world)"
  using move_to_dlq_missing_job_unchanged [of "''ghost''" enqueued_world env0 "''gone''"]
  by (simp add: get_job_def enqueued_world_eq)

section \<open>Requeue from the dead-letter queue\<close>

text \<open>
  C7. For every job that has a dead-letter entry, \<open>requeue_from_dlq\<close> returns true, resets
  the job row to state pending with \<open>attempts = 0\<close>, \<open>retry_at\<close>, \<open>locked_by\<close> and
  \<open>locked_at\<close> null (only \<open>updated_at\<close> changes besides), and deletes every dead-letter
  entry of the job; a second requeue of the same job then returns false and leaves the
  store as it is.
\<close>

theorem requeue_from_dlq_resets_and_removes:
  assumes "get_job jid w \<noteq> None" and "get_dlq_job jid w \<noteq> None"
  shows "fst (requeue_from_dlq e jid w) = True \<and>
         get_job jid (snd (requeue_from_dlq e jid w)) =
           map_option (\<lambda>j. j\<lparr>state := Pending, attempts := 0, locked_by := None,
                              locked_at := None, retry_at := None,
                              updated_at := clock e (ticks w)\<rparr>) (get_job jid w) \<and>
         get_dlq_job jid (snd (requeue_from_dlq e jid w)) = None \<and>
         filter (\<lambda>x. dlq_job_id x = jid) (dlq (snd (requeue_from_dlq e jid w))) = [] \<and>
         requeue_from_dlq e jid (snd (requeue_from_dlq e jid w)) =
           (False, snd (requeue_from_dlq e jid w))"
  using assms
  by (auto simp add: requeue_from_dlq_def now_timestamp_def get_job_def get_dlq_job_def
      find_update_jobs find_filter_none filter_empty_conv)

theorem requeue_from_dlq_resets_and_removes_witness:
  "get_job ''d'' dead_world \<noteq> None \<and> get_dlq_job ''d'' dead_world \<noteq> None \<and>
   fst (requeue_from_dlq env0 ''d'' dead_world) = True \<and>
   map_option state (get_job ''d'' (snd (requeue_from_dlq env0 ''d'' dead_world))) = Some Pending \<and>
   map_option attempts (get_job ''d'' (snd (requeue_from_dlq env0 ''d'' dead_world))) = Some 0 \<and>
   dlq (snd (requeue_from_dlq env0 ''d'' dead_world)) = [] \<and>
   fst (requeue_from_dlq env0 ''d'' (snd (requeue_from_dlq env0 ''d'' dead_world))) = False"
proof -
  have h1: "get_job ''d'' dead_world \<noteq> None" by (simp add: get_job_def dead_world_eq)
  have h2: "get_dlq_job ''d'' dead_world \<noteq> None" by (simp add: get_dlq_job_def dead_world_eq)
  have d: "dlq (snd (requeue_from_dlq env0 ''d'' dead_world)) = []"
    by (simp add: requeue_from_dlq_def get_dlq_job_def dead_world_eq now_timestamp_def)
  show ?thesis
    using h1 h2 d requeue_from_dlq_resets_and_removes [OF h1 h2, of env0]
    by (auto simp add: get_job_def dead_world_eq)
qed

section \<open>The order of the claimer\<close>

lemma lex_trans:
  fixes a1 a2 b1 b2 c1 c2 :: int
  shows "a1 < b1 \<or> (a1 = b1 \<and> a2 < b2) \<Longrightarrow> b1 < c1 \<or> (b1 = c1 \<and> b2 < c2) \<Longrightarrow>
         a1 < c1 \<or> (a1 = c1 \<and> a2 < c2)"
  by linarith

lemma lex_between:
  fixes a1 a2 b1 b2 c1 c2 :: int
  shows "a1 < c1 \<or> (a1 = c1 \<and> a2 < c2) \<Longrightarrow>
         (a1 < b1 \<or> (a1 = b1 \<and> a2 < b2)) \<or> (b1 < c1 \<or> (b1 = c1 \<and> b2 < c2))"
  by linarith

lemma text_before_irrefl: "\<not> text_before a a"
  by (simp add: text_before_def)

lemma text_before_trans: "text_before a b \<Longrightarrow> text_before b c \<Longrightarrow> text_before a c"
  unfolding text_before_def by (rule lex_trans)

lemma text_before_between: "text_before a c \<Longrightarrow> text_before a b \<or> text_before b c"
  unfolding text_before_def by (rule lex_between)

lemma text_before_seconds: "\<not> text_before a b \<Longrightarrow> sql_datetime b \<le> sql_datetime a"
  unfolding text_before_def sql_datetime_def
  by (cases "a div 1000000 < b div 1000000") simp_all

lemma text_before_instants:
  assumes "(a mod 1000000 = 0) = (b mod 1000000 = 0)"
  shows "text_before a b \<longleftrightarrow> a < b"
proof -
  obtain qa ra where a: "a = 1000000 * qa + ra" "qa = a div 1000000" "ra = a mod 1000000"
    by simp
  obtain qb rb where b: "b = 1000000 * qb + rb" "qb = b div 1000000" "rb = b mod 1000000"
    by simp
  have r: "0 \<le> ra" "ra < 1000000" "0 \<le> rb" "rb < 1000000"
    using a(3) b(3) by simp_all
  have "text_before a b \<longleftrightarrow> qa < qb \<or> (qa = qb \<and> ra < rb)"
    using assms unfolding text_before_def text_fraction_def a(2)[symmetric] b(2)[symmetric]
      a(3)[symmetric] b(3)[symmetric]
    by auto
  also have "\<dots> \<longleftrightarrow> a < b"
    unfolding a(1) b(1) using r by auto
  finally show ?thesis .
qed

text \<open>Within one second the text without a fraction sorts after the others: a row created
  at 1.5 s sorts before a row created at 1.0 s.\<close>

lemma text_without_fraction_sorts_last: "text_before 1500000 1000000"
  by (simp add: text_before_def text_fraction_def)

lemma precedes_irrefl: "\<not> precedes a a"
  by (simp add: precedes_def text_before_irrefl)

lemma precedes_trans:
  assumes "precedes a b" and "precedes b c"
  shows "precedes a c"
proof -
  have t: "text_before (created_at a) (created_at b) \<Longrightarrow>
           text_before (created_at b) (created_at c) \<Longrightarrow>
           text_before (created_at a) (created_at c)"
    by (rule text_before_trans)
  show ?thesis
    using assms t unfolding precedes_def by (elim disjE conjE) simp_all
qed

lemma precedes_between:
  assumes "precedes a c"
  shows "precedes a b \<or> precedes b c"
proof -
  have t: "text_before (created_at a) (created_at c) \<Longrightarrow>
           text_before (created_at a) (created_at b) \<or>
           text_before (created_at b) (created_at c)"
    by (rule text_before_between)
  show ?thesis
    using assms t unfolding precedes_def by (elim disjE conjE) (simp_all, linarith+)
qed

lemma first_in_order_mem: "first_in_order b js \<in> set (b # js)"
  by (induction js arbitrary: b) auto

lemma first_in_order_least:
  "\<not> precedes b (first_in_order b js) \<and> (\<forall>x\<in>set js. \<not> precedes x (first_in_order b js))"
proof (induction js arbitrary: b)
  case Nil
  show ?case by (simp add: precedes_irrefl)
next
  case (Cons j js)
  let ?b = "if precedes j b then j else b"
  let ?r = "first_in_order ?b js"
  have ih: "\<not> precedes ?b ?r" "\<forall>x\<in>set js. \<not> precedes x ?r"
    using Cons.IH [of ?b] by simp_all
  have "\<not> precedes b ?r \<and> \<not> precedes j ?r"
  proof (cases "precedes j b")
    case True
    with ih(1) show ?thesis using precedes_trans [of j b ?r] by auto
  next
    case False
    with ih(1) show ?thesis using precedes_between [of j ?r b] by auto
  qed
  with ih(2) show ?case by simp
qed

lemma select_job_None:
  "select_job lease now js = None \<longleftrightarrow> (\<forall>j\<in>set js. \<not> eligible lease now j)"
  by (auto simp add: select_job_def filter_empty_conv split: list.splits)
     (metis filter_empty_conv list.distinct(1))

lemma select_job_Some:
  assumes "select_job lease now js = Some jid"
  shows "\<exists>j\<in>set js. job_id j = jid \<and> eligible lease now j \<and>
           (\<forall>x\<in>set js. eligible lease now x \<longrightarrow> \<not> precedes x j)"
proof -
  from assms obtain c cs where f: "filter (eligible lease now) js = c # cs"
    and jid: "jid = job_id (first_in_order c cs)"
    by (auto simp add: select_job_def split: list.splits)
  let ?r = "first_in_order c cs"
  have "?r \<in> set (filter (eligible lease now) js)"
    using first_in_order_mem [of c cs] f by simp
  moreover have "\<forall>x\<in>set (filter (eligible lease now) js). \<not> precedes x ?r"
    using first_in_order_least [of c cs] f by simp
  ultimately show ?thesis using jid by auto
qed

lemma pick_pending_job_refused:
  "in_transaction w \<or> \<not> fits_int64 lease \<or> \<not> fits_int64 pid \<Longrightarrow>
   fst (pick_pending_job e pid lease w) = None"
  by (auto simp add: pick_pending_job_def sqlite_now_def now_timestamp_def Let_def
      split: option.splits)

lemma pick_pending_job_ran:
  "fst (pick_pending_job e pid lease w) = Some picked \<Longrightarrow>
   \<not> in_transaction w \<and> fits_int64 lease \<and> fits_int64 pid"
  using pick_pending_job_refused [of w lease pid e] by auto



lemma pick_pending_job_Some:
  assumes d: "distinct (map job_id (jobs w))"
    and p: "fst (pick_pending_job e pid lease w) = Some picked"
  shows "\<exists>j\<in>set (jobs w).
           eligible lease (clock e (ticks w)) j \<and>
           (\<forall>x\<in>set (jobs w). eligible lease (clock e (ticks w)) x \<longrightarrow> \<not> precedes x j) \<and>
           picked = j\<lparr>locked_by := Some pid, locked_at := Some (clock e (Suc (ticks w))),
                       state := Processing, updated_at := clock e (Suc (ticks w))\<rparr> \<and>
           snd (pick_pending_job e pid lease w) =
             w\<lparr>ticks := Suc (Suc (ticks w)),
               jobs := update_jobs (job_id j)
                 (\<lambda>j. j\<lparr>locked_by := Some pid, locked_at := Some (clock e (Suc (ticks w))),
                        state := Processing, updated_at := clock e (Suc (ticks w))\<rparr>) (jobs w)\<rparr>"
proof (cases "select_job lease (clock e (ticks w)) (jobs w)")
  case None
  with p pick_pending_job_ran [OF p] show ?thesis
    by (simp add: pick_pending_job_def sqlite_now_def)
next
  case (Some jid)
  note ok = pick_pending_job_ran [OF p]
  from select_job_Some [OF Some] obtain j where j: "j \<in> set (jobs w)" "job_id j = jid"
    "eligible lease (clock e (ticks w)) j"
    "\<forall>x\<in>set (jobs w). eligible lease (clock e (ticks w)) x \<longrightarrow> \<not> precedes x j" by blast
  have f: "find (\<lambda>x. job_id x = jid) (jobs w) = Some j"
    using find_by_id_distinct [OF d j(1)] j(2) by simp
  have "picked = j\<lparr>locked_by := Some pid, locked_at := Some (clock e (Suc (ticks w))),
                       state := Processing, updated_at := clock e (Suc (ticks w))\<rparr>"
    using p ok Some f
    by (simp add: pick_pending_job_def sqlite_now_def now_timestamp_def get_job_def
        find_update_jobs)
  moreover have "snd (pick_pending_job e pid lease w) =
             w\<lparr>ticks := Suc (Suc (ticks w)),
               jobs := update_jobs (job_id j)
                 (\<lambda>j. j\<lparr>locked_by := Some pid, locked_at := Some (clock e (Suc (ticks w))),
                        state := Processing, updated_at := clock e (Suc (ticks w))\<rparr>) (jobs w)\<rparr>"
    using Some ok j(2)
    by (simp add: pick_pending_job_def sqlite_now_def now_timestamp_def Let_def)
  ultimately show ?thesis using j by blast
qed









lemma pick_priority_world:
  "map_option job_id (fst (pick_pending_job env0 7 300 priority_world)) = Some ''p10''"
  by (simp add: priority_world_eq env0_def get_job_def pick_pending_job_def fits_int64_def sqlite_now_def
      now_timestamp_def select_job_def eligible_def sql_datetime_def update_jobs_def
      precedes_def sort_class_def)

section \<open>Eligibility\<close>





text \<open>
  Within that second the \<open>WHERE\<close> clause departs from the comment above it,
  \<open>ready to run (run_at <= now)\<close>: it compares through \<open>datetime(...)\<close>, which drops
  the fraction of the second, and at 0.2 s the job scheduled for 0.9 s passes it.
\<close>

lemma scheduled_job_claimed_within_the_second:
  "clock env_sub (ticks scheduled_world) = 200000 \<and>
   map_option run_at (get_job ''s'' scheduled_world) = Some (Some 900000) \<and>
   map_option (spec_eligible 300 200000) (get_job ''s'' scheduled_world) = Some False \<and>
   map_option job_id (fst (pick_pending_job env_sub 7 300 scheduled_world)) = Some ''s''"
  by (simp add: scheduled_world_eq env_sub_def get_job_def spec_eligible_def
      pick_pending_job_def fits_int64_def sqlite_now_def now_timestamp_def select_job_def
      eligible_def sql_datetime_def update_jobs_def)

section \<open>Priority order\<close>

text \<open>
  The row \<open>pick_pending_job\<close> returns is an eligible row that no eligible row precedes in
  the order of the \<open>ORDER BY\<close> clause: no eligible row with priority above 0 exists when
  the returned one has priority 0, no eligible row has a higher priority, and among the
  eligible rows of the same priority none has a \<open>created_at\<close> that sorts before its own
  as text. That is the order of the instants up to the second, and of the instants
  themselves unless exactly one of the two texts lacks its fraction. When a priority-10
  job is eligible, a priority-0 job is not the one claimed, whatever their order of
  arrival.
\<close>

lemma pick_pending_job_order:
  assumes d: "distinct (map job_id (jobs w))"
    and p: "fst (pick_pending_job e pid lease w) = Some picked"
  shows "\<exists>j\<in>set (jobs w).
           job_id j = job_id picked \<and> priority j = priority picked \<and>
           created_at j = created_at picked \<and>
           eligible lease (clock e (ticks w)) j \<and>
           (\<forall>x\<in>set (jobs w). eligible lease (clock e (ticks w)) x \<longrightarrow>
              \<not> precedes x j \<and>
              \<not> (0 < priority x \<and> priority j \<le> 0) \<and>
              (priority x < priority j \<or>
               (priority x = priority j \<and> \<not> text_before (created_at x) (created_at j))) \<and>
              (priority x = priority j \<longrightarrow>
                 sql_datetime (created_at j) \<le> sql_datetime (created_at x)) \<and>
              (priority x = priority j \<and>
               (created_at x mod 1000000 = 0) = (created_at j mod 1000000 = 0) \<longrightarrow>
                 created_at j \<le> created_at x) \<and>
              (priority x = 10 \<longrightarrow> priority picked \<noteq> 0))"
proof -
  from pick_pending_job_Some [OF d p] obtain j where j: "j \<in> set (jobs w)"
    "eligible lease (clock e (ticks w)) j"
    "\<forall>x\<in>set (jobs w). eligible lease (clock e (ticks w)) x \<longrightarrow> \<not> precedes x j"
    "picked = j\<lparr>locked_by := Some pid, locked_at := Some (clock e (Suc (ticks w))),
                       state := Processing, updated_at := clock e (Suc (ticks w))\<rparr>" by blast
  have fields: "job_id j = job_id picked" "priority j = priority picked"
    "created_at j = created_at picked"
    using j(4) by simp_all
  have order: "\<not> (0 < priority x \<and> priority j \<le> 0) \<and>
              (priority x < priority j \<or>
               (priority x = priority j \<and> \<not> text_before (created_at x) (created_at j))) \<and>
              (priority x = priority j \<longrightarrow>
                 sql_datetime (created_at j) \<le> sql_datetime (created_at x)) \<and>
              (priority x = priority j \<and>
               (created_at x mod 1000000 = 0) = (created_at j mod 1000000 = 0) \<longrightarrow>
                 created_at j \<le> created_at x) \<and>
              (priority x = 10 \<longrightarrow> priority picked \<noteq> 0)" if np: "\<not> precedes x j" for x
  proof -
    have a: "\<not> (0 < priority x \<and> priority j \<le> 0)"
      "priority x < priority j \<or>
         (priority x = priority j \<and> \<not> text_before (created_at x) (created_at j))"
      "priority x = 10 \<longrightarrow> priority picked \<noteq> 0"
      using np fields(2) unfolding precedes_def sort_class_def
      by (auto split: if_splits)
    have b: "sql_datetime (created_at j) \<le> sql_datetime (created_at x)"
      if "priority x = priority j"
      using a(2) that text_before_seconds by auto
    have c: "created_at j \<le> created_at x"
      if "priority x = priority j"
        "(created_at x mod 1000000 = 0) = (created_at j mod 1000000 = 0)"
      using a(2) that text_before_instants [of "created_at x" "created_at j"] by auto
    from a b c show ?thesis by simp
  qed
  have rest: "\<forall>x\<in>set (jobs w). eligible lease (clock e (ticks w)) x \<longrightarrow>
              \<not> precedes x j \<and>
              \<not> (0 < priority x \<and> priority j \<le> 0) \<and>
              (priority x < priority j \<or>
               (priority x = priority j \<and> \<not> text_before (created_at x) (created_at j))) \<and>
              (priority x = priority j \<longrightarrow>
                 sql_datetime (created_at j) \<le> sql_datetime (created_at x)) \<and>
              (priority x = priority j \<and>
               (created_at x mod 1000000 = 0) = (created_at j mod 1000000 = 0) \<longrightarrow>
                 created_at j \<le> created_at x) \<and>
              (priority x = 10 \<longrightarrow> priority picked \<noteq> 0)"
  proof (intro ballI impI)
    fix x assume "x \<in> set (jobs w)" "eligible lease (clock e (ticks w)) x"
    with j(3) have np: "\<not> precedes x j" by blast
    from np order [OF np] show "\<not> precedes x j \<and>
              \<not> (0 < priority x \<and> priority j \<le> 0) \<and>
              (priority x < priority j \<or>
               (priority x = priority j \<and> \<not> text_before (created_at x) (created_at j))) \<and>
              (priority x = priority j \<longrightarrow>
                 sql_datetime (created_at j) \<le> sql_datetime (created_at x)) \<and>
              (priority x = priority j \<and>
               (created_at x mod 1000000 = 0) = (created_at j mod 1000000 = 0) \<longrightarrow>
                 created_at j \<le> created_at x) \<and>
              (priority x = 10 \<longrightarrow> priority picked \<noteq> 0)"
      by (rule conjI)
  qed
  from fields j(2) rest
  have body: "job_id j = job_id picked \<and> priority j = priority picked \<and>
           created_at j = created_at picked \<and>
           eligible lease (clock e (ticks w)) j \<and>
           (\<forall>x\<in>set (jobs w). eligible lease (clock e (ticks w)) x \<longrightarrow>
              \<not> precedes x j \<and>
              \<not> (0 < priority x \<and> priority j \<le> 0) \<and>
              (priority x < priority j \<or>
               (priority x = priority j \<and> \<not> text_before (created_at x) (created_at j))) \<and>
              (priority x = priority j \<longrightarrow>
                 sql_datetime (created_at j) \<le> sql_datetime (created_at x)) \<and>
              (priority x = priority j \<and>
               (created_at x mod 1000000 = 0) = (created_at j mod 1000000 = 0) \<longrightarrow>
                 created_at j \<le> created_at x) \<and>
              (priority x = 10 \<longrightarrow> priority picked \<noteq> 0))"
    by (intro conjI)
  show ?thesis
  proof (rule bexI)
    show "j \<in> set (jobs w)" by (rule j(1))
  qed (rule body)
qed

lemma fifo_world_eq:
  "fifo_world = \<lparr>jobs =
     [\<lparr>job_id = ''a'', command = ''true'', state = Pending, attempts = 0,
       max_retries = 3, created_at = 1000000, updated_at = 1000000, retry_at = None,
       run_at = None, priority = 0, locked_by = None, locked_at = None, last_error = None,
       output_path = None, stdout_log = None, stderr_log = None, exit_code = None,
       completed_at = None\<rparr>,
      \<lparr>job_id = ''b'', command = ''true'', state = Pending, attempts = 0,
       max_retries = 3, created_at = 1500000, updated_at = 1500000, retry_at = None,
       run_at = None, priority = 0, locked_by = None, locked_at = None, last_error = None,
       output_path = None, stdout_log = None, stderr_log = None, exit_code = None,
       completed_at = None\<rparr>],
    dlq = [], ticks = 2, in_transaction = False\<rparr>"
  by (simp add: fifo_world_def insert_job_def fits_int64_def now_timestamp_def env_half_def
      empty_world_def)

text \<open>
  C4. Among eligible rows the claim should return the first by urgency class, then
  priority descending, then \<open>created_at\<close> ascending, oldest first. The first two keys
  are kept, the third is not: \<open>ORDER BY created_at\<close> sorts the column as text, and the
  text of a timestamp with no microseconds lacks its fraction and sorts last within its
  second. Of two eligible jobs of priority 0, \<open>a\<close> enqueued at 1.0 s and \<open>b\<close> enqueued at
  1.5 s, \<open>pick_pending_job\<close> returns \<open>b\<close>.
\<close>

theorem older_job_claimed_second:
  "map_option created_at (get_job ''a'' fifo_world) = Some 1000000 \<and>
   map_option created_at (get_job ''b'' fifo_world) = Some 1500000 \<and>
   map_option priority (get_job ''a'' fifo_world) = Some 0 \<and>
   map_option priority (get_job ''b'' fifo_world) = Some 0 \<and>
   map_option (eligible 300 (clock env_half (ticks fifo_world))) (get_job ''a'' fifo_world) =
     Some True \<and>
   map_option (eligible 300 (clock env_half (ticks fifo_world))) (get_job ''b'' fifo_world) =
     Some True \<and>
   map_option job_id (fst (pick_pending_job env_half 7 300 fifo_world)) = Some ''b''"
  by (simp add: fifo_world_eq env_half_def get_job_def pick_pending_job_def fits_int64_def
      sqlite_now_def now_timestamp_def select_job_def eligible_def sql_datetime_def
      update_jobs_def precedes_def sort_class_def text_before_def text_fraction_def)

section \<open>Attempt counting\<close>

lemma attempts_execute_job:
  "map_option attempts (get_job (job_id job) (snd (execute_job e cfg job w))) =
   map_option (\<lambda>j. attempts j + 1) (get_job (job_id job) w)"
  by (simp add: execute_job_def handle_job_success_def handle_job_failure_def
      increment_job_attempts_def update_job_output_def update_job_state_def
      update_job_completed_at_def unlock_job_def update_job_error_def set_job_retry_at_def
      calculate_retry_at_def move_to_dlq_def run_command_def now_timestamp_def new_uuid_def
      get_job_def find_update_jobs Let_def split_def option.map_comp comp_def
      split: option.splits sum.splits)

text \<open>
  C5, as the specification states it, fails: the job \<open>pick_pending_job\<close> returns, and
  the row it leaves in the store, still carry the attempts value from before the claim.
\<close>

theorem claim_returns_old_attempts_counterexample:
  "map_option attempts (get_job ''d'' enqueued_world) = Some 0 \<and>
   map_option state (fst (pick_pending_job env0 7 300 enqueued_world)) = Some Processing \<and>
   map_option locked_by (fst (pick_pending_job env0 7 300 enqueued_world)) = Some (Some 7) \<and>
   map_option attempts (fst (pick_pending_job env0 7 300 enqueued_world)) = Some 0 \<and>
   map_option attempts (get_job ''d'' (snd (pick_pending_job env0 7 300 enqueued_world))) = Some 0"
  by (simp add: enqueued_world_eq env0_def get_job_def pick_pending_job_def fits_int64_def sqlite_now_def
      now_timestamp_def select_job_def eligible_def sql_datetime_def update_jobs_def)

text \<open>
  C5, amended. The claim transition turns a pending row into a processing row by one
  update that sets \<open>locked_by\<close>, \<open>locked_at\<close>, \<open>state\<close> and \<open>updated_at\<close> and leaves
  \<open>attempts\<close> as it was; the job returned is that row. The worker increments
  \<open>attempts\<close> by exactly one in a separate update, \<open>increment_job_attempts\<close>, at the
  start of \<open>_execute_job\<close>, and nothing else in the execution changes it.
\<close>

theorem claim_sets_lock_worker_increments:
  assumes d: "distinct (map job_id (jobs w))"
    and p: "fst (pick_pending_job e pid lease w) = Some picked"
  shows "(\<exists>j\<in>set (jobs w).
            state j = Pending \<and>
            picked = j\<lparr>locked_by := Some pid, locked_at := Some (clock e (Suc (ticks w))),
                        state := Processing, updated_at := clock e (Suc (ticks w))\<rparr> \<and>
            attempts picked = attempts j) \<and>
         get_job (job_id picked) (snd (pick_pending_job e pid lease w)) = Some picked \<and>
         get_job (job_id picked)
             (increment_job_attempts e (job_id picked) (snd (pick_pending_job e pid lease w))) =
           Some (picked\<lparr>attempts := attempts picked + 1,
                         updated_at := clock e (Suc (Suc (ticks w)))\<rparr>) \<and>
         map_option attempts (get_job (job_id picked)
             (snd (execute_job e cfg picked (snd (pick_pending_job e pid lease w))))) =
           Some (attempts picked + 1)"
proof -
  from pick_pending_job_Some [OF d p] obtain j where j: "j \<in> set (jobs w)"
    "eligible lease (clock e (ticks w)) j"
    "picked = j\<lparr>locked_by := Some pid, locked_at := Some (clock e (Suc (ticks w))),
                       state := Processing, updated_at := clock e (Suc (ticks w))\<rparr>"
    "snd (pick_pending_job e pid lease w) =
             w\<lparr>ticks := Suc (Suc (ticks w)),
               jobs := update_jobs (job_id j)
                 (\<lambda>j. j\<lparr>locked_by := Some pid, locked_at := Some (clock e (Suc (ticks w))),
                        state := Processing, updated_at := clock e (Suc (ticks w))\<rparr>) (jobs w)\<rparr>"
    by blast
  have id: "job_id picked = job_id j" using j(3) by simp
  have f: "find (\<lambda>x. job_id x = job_id j) (jobs w) = Some j"
    using find_by_id_distinct [OF d j(1)] .
  have g: "get_job (job_id picked) (snd (pick_pending_job e pid lease w)) = Some picked"
    unfolding j(4) id using f j(3) by (simp add: get_job_def find_update_jobs)
  have i: "get_job (job_id picked)
             (increment_job_attempts e (job_id picked) (snd (pick_pending_job e pid lease w))) =
           Some (picked\<lparr>attempts := attempts picked + 1,
                         updated_at := clock e (Suc (Suc (ticks w)))\<rparr>)"
    using g j(4)
    by (simp add: increment_job_attempts_def now_timestamp_def get_job_def find_update_jobs)
  have x: "map_option attempts (get_job (job_id picked)
             (snd (execute_job e cfg picked (snd (pick_pending_job e pid lease w))))) =
           Some (attempts picked + 1)"
    using attempts_execute_job [of picked e cfg "snd (pick_pending_job e pid lease w)"] g
    by simp
  have "state j = Pending" using j(2) by (simp add: eligible_def)
  with j(1,3) g i x show ?thesis by auto
qed

theorem claim_sets_lock_worker_increments_witness:
  "distinct (map job_id (jobs enqueued_world)) \<and>
   fst (pick_pending_job env0 7 300 enqueued_world) = Some picked_d \<and>
   attempts picked_d = 0 \<and>
   map_option attempts (get_job ''d''
     (snd (execute_job env0 cfg0 picked_d
        (snd (pick_pending_job env0 7 300 enqueued_world))))) = Some 1"
proof -
  have h1: "distinct (map job_id (jobs enqueued_world))" by (simp add: enqueued_world_eq)
  have h2: "fst (pick_pending_job env0 7 300 enqueued_world) = Some picked_d"
    by (simp add: enqueued_world_eq env0_def get_job_def pick_pending_job_def fits_int64_def sqlite_now_def
      now_timestamp_def select_job_def eligible_def sql_datetime_def update_jobs_def
      picked_d_def)
  have a: "attempts picked_d = 0" "job_id picked_d = ''d''" by (simp_all add: picked_d_def)
  show ?thesis
    using h1 h2 a claim_sets_lock_worker_increments [OF h1 h2, of cfg0]
    by simp
qed

section \<open>Retry-ready promotion\<close>

text \<open>
  C8, as the specification states it, fails: promotion does not clear \<open>retry_at\<close>. At
  11 s the pending job whose \<open>retry_at\<close> is 9 s is counted as promoted and keeps its
  \<open>retry_at\<close>.
\<close>

theorem promotion_keeps_retry_at_counterexample:
  "map_option state (get_job ''r'' retry_world) = Some Pending \<and>
   map_option retry_at (get_job ''r'' retry_world) = Some (Some 9000000) \<and>
   clock env0 (ticks retry_world) = 11000000 \<and>
   fst (move_ready_jobs_to_pending env0 retry_world) = 1 \<and>
   map_option retry_at (get_job ''r'' (snd (move_ready_jobs_to_pending env0 retry_world))) =
     Some (Some 9000000)"
  by (simp add: retry_world_eq get_job_def env0_def move_ready_jobs_to_pending_def
      sqlite_now_def promote_rows_def retry_ready_def sql_datetime_def)

lemma promote_rows_idem: "promote_rows now (promote_rows now js) = promote_rows now js"
  by (induction js) (simp_all add: promote_rows_def retry_ready_def)

text \<open>
  C8, amended. Retry-ready promotion maps every pending row whose \<open>retry_at\<close> is
  non-null and strictly earlier than now, compared at whole seconds, to the same row
  with \<open>locked_by\<close> and \<open>locked_at\<close> cleared; \<open>retry_at\<close> and the state of every row
  stay as they were, all other rows are untouched, and the count returned is the number
  of rows matched. The update is idempotent for one value of now, and two runs that
  read the clock within the same second leave the rows, and return the count, of one.
\<close>

theorem promotion_clears_lock_only:
  "snd (move_ready_jobs_to_pending e w) =
     w\<lparr>ticks := Suc (ticks w),
       jobs := map (\<lambda>j. if state j = Pending \<and>
                            (\<exists>r. retry_at j = Some r \<and>
                                 sql_datetime r < sql_datetime (clock e (ticks w)))
                         then j\<lparr>locked_by := None, locked_at := None\<rparr> else j) (jobs w),
       in_transaction := False\<rparr> \<and>
   fst (move_ready_jobs_to_pending e w) =
     length (filter (\<lambda>j. state j = Pending \<and>
                           (\<exists>r. retry_at j = Some r \<and>
                                sql_datetime r < sql_datetime (clock e (ticks w)))) (jobs w)) \<and>
   map retry_at (jobs (snd (move_ready_jobs_to_pending e w))) = map retry_at (jobs w) \<and>
   map state (jobs (snd (move_ready_jobs_to_pending e w))) = map state (jobs w) \<and>
   promote_rows now (promote_rows now js) = promote_rows now js \<and>
   (sql_datetime (clock e (Suc (ticks w))) = sql_datetime (clock e (ticks w)) \<longrightarrow>
      jobs (snd (move_ready_jobs_to_pending e (snd (move_ready_jobs_to_pending e w)))) =
      jobs (snd (move_ready_jobs_to_pending e w)) \<and>
      fst (move_ready_jobs_to_pending e (snd (move_ready_jobs_to_pending e w))) =
      fst (move_ready_jobs_to_pending e w))"
proof -
  have rr: "retry_ready now = (\<lambda>j. state j = Pending \<and>
      (\<exists>r. retry_at j = Some r \<and> sql_datetime r < sql_datetime now))" for now
    by (rule ext) (auto simp add: retry_ready_def split: option.splits)
  have upd: "j\<lparr>state := Pending, locked_by := None, locked_at := None\<rparr> =
             j\<lparr>locked_by := None, locked_at := None\<rparr>" if "state j = Pending" for j :: job
    using that by simp
  have a: "snd (move_ready_jobs_to_pending e w) =
     w\<lparr>ticks := Suc (ticks w),
       jobs := map (\<lambda>j. if state j = Pending \<and>
                            (\<exists>r. retry_at j = Some r \<and>
                                 sql_datetime r < sql_datetime (clock e (ticks w)))
                         then j\<lparr>locked_by := None, locked_at := None\<rparr> else j) (jobs w),
       in_transaction := False\<rparr>"
    unfolding move_ready_jobs_to_pending_def sqlite_now_def promote_rows_def
    by (simp add: rr upd cong: if_cong)
  have b: "fst (move_ready_jobs_to_pending e w) =
     length (filter (\<lambda>j. state j = Pending \<and>
                           (\<exists>r. retry_at j = Some r \<and>
                                sql_datetime r < sql_datetime (clock e (ticks w)))) (jobs w))"
    unfolding move_ready_jobs_to_pending_def sqlite_now_def
    by (simp add: rr)
  have c: "map retry_at (jobs (snd (move_ready_jobs_to_pending e w))) = map retry_at (jobs w)"
    "map state (jobs (snd (move_ready_jobs_to_pending e w))) = map state (jobs w)"
    unfolding move_ready_jobs_to_pending_def sqlite_now_def promote_rows_def
    by (simp_all add: retry_ready_def)
  have cnt: "length (filter (retry_ready t) (promote_rows t' xs)) =
             length (filter (retry_ready t) xs)" for t t' xs
    by (induction xs) (simp_all add: promote_rows_def retry_ready_def)
  have d: "jobs (snd (move_ready_jobs_to_pending e (snd (move_ready_jobs_to_pending e w)))) =
      jobs (snd (move_ready_jobs_to_pending e w)) \<and>
      fst (move_ready_jobs_to_pending e (snd (move_ready_jobs_to_pending e w))) =
      fst (move_ready_jobs_to_pending e w)"
    if "sql_datetime (clock e (Suc (ticks w))) = sql_datetime (clock e (ticks w))"
  proof -
    have same: "retry_ready (clock e (Suc (ticks w))) = retry_ready (clock e (ticks w))"
      using that by (intro ext) (simp add: retry_ready_def split: option.splits)
    have same': "promote_rows (clock e (Suc (ticks w))) = promote_rows (clock e (ticks w))"
      by (intro ext) (simp add: promote_rows_def same)
    show ?thesis
      unfolding move_ready_jobs_to_pending_def sqlite_now_def
      by (simp add: same same' cnt promote_rows_idem)
  qed
  show ?thesis using a b c d promote_rows_idem by blast
qed

theorem promotion_clears_lock_only_witness:
  "sql_datetime (clock env_late (Suc (ticks retry_world))) =
     sql_datetime (clock env_late (ticks retry_world)) \<and>
   fst (move_ready_jobs_to_pending env_late retry_world) = 1 \<and>
   jobs (snd (move_ready_jobs_to_pending env_late
           (snd (move_ready_jobs_to_pending env_late retry_world)))) =
   jobs (snd (move_ready_jobs_to_pending env_late retry_world))"
proof -
  have h: "sql_datetime (clock env_late (Suc (ticks retry_world))) =
     sql_datetime (clock env_late (ticks retry_world))"
    by (simp add: retry_world_eq env_late_def sql_datetime_def)
  have c: "fst (move_ready_jobs_to_pending env_late retry_world) = 1"
    by (simp add: retry_world_eq env_late_def move_ready_jobs_to_pending_def
      sqlite_now_def retry_ready_def sql_datetime_def)
  have "jobs (snd (move_ready_jobs_to_pending env_late
           (snd (move_ready_jobs_to_pending env_late retry_world)))) =
        jobs (snd (move_ready_jobs_to_pending env_late retry_world))"
    using h promotion_clears_lock_only [of env_late retry_world] by blast
  with h c show ?thesis by blast
qed

section \<open>Backoff\<close>

lemma calculate_backoff_le: "calculate_backoff att base m \<le> m"
  by (simp add: calculate_backoff_def)

text \<open>
  C6. \<open>calculate_backoff attempts base max = min (base ^ attempts) max\<close> seconds, never
  more than \<open>max\<close>. When an execution fails and a retry is due, the \<open>retry_at\<close> written
  is the clock reading of \<open>calculate_retry_at\<close> plus the backoff of the attempts count
  after the increment for this execution: for a row with \<open>attempts = a\<close> before the
  execution, \<open>min (base ^ (a + 1)) max\<close> seconds, so the first retry waits \<open>base\<close>
  seconds whenever \<open>base\<close> does not exceed the cap.
\<close>

theorem backoff_and_retry_at:
  assumes row: "get_job (job_id job) w = Some j"
    and fail: "fst (execute_command e (Suc (ticks w)) (command job)) \<noteq> 0"
    and more: "int (attempts j + 1) < max_retries j"
    and range:
      "datetime_min \<le> clock e (ticks w + 4) +
         1000000 * min (backoff_base cfg ^ (attempts j + 1)) (max_backoff_seconds cfg)"
      "clock e (ticks w + 4) +
         1000000 * min (backoff_base cfg ^ (attempts j + 1)) (max_backoff_seconds cfg)
       \<le> datetime_max"
  shows "calculate_backoff att base m = min (base ^ att) m \<and>
         calculate_backoff att base m \<le> m \<and>
         fst (execute_job e cfg job w) = None \<and>
         map_option attempts (get_job (job_id job) (snd (execute_job e cfg job w))) =
           Some (attempts j + 1) \<and>
         map_option retry_at (get_job (job_id job) (snd (execute_job e cfg job w))) =
           Some (Some (clock e (ticks w + 4) +
             1000000 * min (backoff_base cfg ^ (attempts j + 1)) (max_backoff_seconds cfg))) \<and>
         (attempts j = 0 \<and> backoff_base cfg \<le> max_backoff_seconds cfg \<longrightarrow>
            map_option retry_at (get_job (job_id job) (snd (execute_job e cfg job w))) =
              Some (Some (clock e (ticks w + 4) + 1000000 * backoff_base cfg)))"
proof -
  have t: "ticks w + 4 = Suc (Suc (Suc (Suc (ticks w))))" by simp
  have r: "fst (execute_job e cfg job w) = None \<and>
         map_option retry_at (get_job (job_id job) (snd (execute_job e cfg job w))) =
           Some (Some (clock e (ticks w + 4) +
             1000000 * min (backoff_base cfg ^ (attempts j + 1)) (max_backoff_seconds cfg)))"
    using row fail more range unfolding t
    by (simp add: execute_job_def handle_job_failure_def
      increment_job_attempts_def update_job_output_def update_job_state_def
      unlock_job_def update_job_error_def set_job_retry_at_def
      calculate_retry_at_def calculate_backoff_def run_command_def now_timestamp_def
      get_job_def find_update_jobs Let_def split_def)
  have a: "map_option attempts (get_job (job_id job) (snd (execute_job e cfg job w))) =
           Some (attempts j + 1)"
    using attempts_execute_job [of job e cfg w] row by simp
  have f: "attempts j = 0 \<and> backoff_base cfg \<le> max_backoff_seconds cfg \<longrightarrow>
            map_option retry_at (get_job (job_id job) (snd (execute_job e cfg job w))) =
              Some (Some (clock e (ticks w + 4) + 1000000 * backoff_base cfg))"
  proof (intro impI, elim conjE)
    assume z: "attempts j = 0" and le: "backoff_base cfg \<le> max_backoff_seconds cfg"
    have "min (backoff_base cfg ^ (attempts j + 1)) (max_backoff_seconds cfg) = backoff_base cfg"
      using z le by simp
    with r show "map_option retry_at (get_job (job_id job) (snd (execute_job e cfg job w))) =
              Some (Some (clock e (ticks w + 4) + 1000000 * backoff_base cfg))"
      by simp
  qed
  have b: "calculate_backoff att base m = min (base ^ att) m"
    by (simp add: calculate_backoff_def)
  show ?thesis
    using r a f b calculate_backoff_le [of att base m] by blast
qed

theorem backoff_and_retry_at_witness:
  "get_job (job_id picked_r) claimed_world = Some picked_r \<and>
   fst (execute_command env0 (Suc (ticks claimed_world)) (command picked_r)) \<noteq> 0 \<and>
   int (attempts picked_r + 1) < max_retries picked_r \<and>
   attempts picked_r = 0 \<and> backoff_base cfg0 \<le> max_backoff_seconds cfg0 \<and>
   clock env0 (ticks claimed_world + 4) = 7000000 \<and>
   calculate_backoff 1 2 300 = 2 \<and>
   calculate_backoff 10 2 300 = 300 \<and>
   map_option retry_at (get_job ''r'' (snd (execute_job env0 cfg0 picked_r claimed_world))) =
     Some (Some 9000000)"
proof -
  have h1: "get_job (job_id picked_r) claimed_world = Some picked_r"
    by (simp add: claimed_world_eq get_job_def)
  have h2: "fst (execute_command env0 (Suc (ticks claimed_world)) (command picked_r)) \<noteq> 0"
    by (simp add: env0_def)
  have h3: "int (attempts picked_r + 1) < max_retries picked_r"
    by (simp add: picked_r_def)
  have c: "clock env0 (ticks claimed_world + 4) = 7000000"
    by (simp add: claimed_world_eq env0_def)
  have p: "attempts picked_r = 0" "job_id picked_r = ''r''" "backoff_base cfg0 = 2"
    "max_backoff_seconds cfg0 = 300"
    by (simp_all add: picked_r_def cfg0_def)
  have h4: "datetime_min \<le> clock env0 (ticks claimed_world + 4) +
         1000000 * min (backoff_base cfg0 ^ (attempts picked_r + 1)) (max_backoff_seconds cfg0)"
    "clock env0 (ticks claimed_world + 4) +
         1000000 * min (backoff_base cfg0 ^ (attempts picked_r + 1)) (max_backoff_seconds cfg0)
       \<le> datetime_max"
    unfolding c p by (simp_all add: datetime_min_def datetime_max_def)
  have b: "calculate_backoff 1 2 300 = 2" "calculate_backoff 10 2 300 = 300"
    by (simp_all add: calculate_backoff_def)
  have "map_option retry_at (get_job ''r'' (snd (execute_job env0 cfg0 picked_r claimed_world))) =
     Some (Some 9000000)"
    using backoff_and_retry_at [OF h1 h2 h3 h4] unfolding c p by simp
  with h1 h2 h3 c p b show ?thesis by simp
qed

section \<open>Retry or dead-letter on failure\<close>

lemma process_one_job_idle:
  assumes "\<forall>j\<in>set (jobs w). state j \<noteq> Pending"
  shows "fst (process_one_job e cfg pid w) = None \<and>
         jobs (snd (process_one_job e cfg pid w)) = jobs w \<and>
         dlq (snd (process_one_job e cfg pid w)) = dlq w"
proof -
  have "\<forall>j\<in>set (jobs w). \<not> eligible (lock_lease_seconds cfg) (clock e (ticks w)) j"
    using assms by (simp add: eligible_def)
  then have "select_job (lock_lease_seconds cfg) (clock e (ticks w)) (jobs w) = None"
    using select_job_None by blast
  then show ?thesis
    by (simp add: process_one_job_def pick_pending_job_def sqlite_now_def)
qed

lemma run_idle:
  "\<forall>j\<in>set (jobs w). state j \<noteq> Pending \<Longrightarrow>
   jobs (run e cfg pid n w) = jobs w \<and> dlq (run e cfg pid n w) = dlq w"
proof (induction n arbitrary: w)
  case 0
  show ?case by simp
next
  case (Suc n)
  note idle = process_one_job_idle [OF Suc.prems, of e cfg pid]
  have "\<forall>j\<in>set (jobs (snd (process_one_job e cfg pid w))). state j \<noteq> Pending"
    using idle Suc.prems by simp
  from Suc.IH [OF this] idle show ?case by simp
qed

lemma single_job_first_failure:
  assumes "fst (execute_command e 4 cmd) \<noteq> 0"
    and "fits_int64 (lock_lease_seconds cfg)" and "fits_int64 pid"
  shows "map state (jobs (snd (process_one_job e cfg pid
            (snd (insert_job e jid cmd 1 0 None empty_world))))) = [Dead] \<and>
         map job_id (jobs (snd (process_one_job e cfg pid
            (snd (insert_job e jid cmd 1 0 None empty_world))))) = [jid] \<and>
         map attempts (jobs (snd (process_one_job e cfg pid
            (snd (insert_job e jid cmd 1 0 None empty_world))))) = [1] \<and>
         map dlq_job_id (dlq (snd (process_one_job e cfg pid
            (snd (insert_job e jid cmd 1 0 None empty_world))))) = [jid] \<and>
         map reason (dlq (snd (process_one_job e cfg pid
            (snd (insert_job e jid cmd 1 0 None empty_world))))) =
           [''Max retries exceeded: Exit code '' @ str_int (fst (execute_command e 4 cmd)) @
            '': '' @ snd (snd (execute_command e 4 cmd))]"
proof -
  have n: "Suc (Suc (Suc (Suc 0))) = 4" by simp
  show ?thesis
    using assms
    by (simp add: insert_job_def now_timestamp_def sqlite_now_def new_uuid_def run_command_def
      get_job_def update_jobs_def update_job_state_def increment_job_attempts_def
      update_job_error_def update_job_output_def move_to_dlq_def
      pick_pending_job_def select_job_def eligible_def
      handle_job_failure_def execute_job_def handle_job_error_def
      process_one_job_def empty_world_def Let_def split_def n
      fits_int64_def [of 1] fits_int64_def [of 0])
qed

text \<open>
  C1, as the specification states it, fails: with \<open>max_retries = 1\<close> the job is dead
  after its first failing execution, with \<open>attempts = 1\<close>; further iterations of the
  worker never execute it again, so \<open>attempts\<close> never becomes 2.
\<close>

theorem dead_after_first_failure_counterexample:
  "map_option max_retries (get_job ''d'' enqueued_world) = Some 1 \<and>
   fst (execute_command env0 4 ''false'') = 1 \<and>
   map_option attempts (get_job ''d'' (snd (process_one_job env0 cfg0 7 enqueued_world))) = Some 1 \<and>
   map_option state (get_job ''d'' (snd (process_one_job env0 cfg0 7 enqueued_world))) = Some Dead \<and>
   map reason (dlq (snd (process_one_job env0 cfg0 7 enqueued_world))) =
     [''Max retries exceeded: Exit code 1: boom''] \<and>
   map_option attempts (get_job ''d'' (run env0 cfg0 7 5 enqueued_world)) = Some 1"
proof -
  have "run env0 cfg0 7 5 enqueued_world =
        run env0 cfg0 7 4 (snd (process_one_job env0 cfg0 7 enqueued_world))"
    by (simp add: eval_nat_numeral)
  moreover have "jobs (run env0 cfg0 7 4 (snd (process_one_job env0 cfg0 7 enqueued_world))) =
     jobs (snd (process_one_job env0 cfg0 7 enqueued_world))"
    by (rule run_idle [THEN conjunct1]) (simp add: s3_world_eq)
  ultimately have r: "jobs (run env0 cfg0 7 5 enqueued_world) =
     jobs (snd (process_one_job env0 cfg0 7 enqueued_world))"
    by simp
  have a: "map_option max_retries (get_job ''d'' enqueued_world) = Some 1"
    by (simp add: enqueued_world_eq get_job_def)
  have b: "fst (execute_command env0 4 ''false'') = 1"
    by (simp add: env0_def)
  have c: "map_option attempts (get_job ''d'' (snd (process_one_job env0 cfg0 7 enqueued_world))) = Some 1"
    "map_option state (get_job ''d'' (snd (process_one_job env0 cfg0 7 enqueued_world))) = Some Dead"
    "map reason (dlq (snd (process_one_job env0 cfg0 7 enqueued_world))) =
       [''Max retries exceeded: Exit code 1: boom'']"
    by (simp_all add: s3_world_eq get_job_def)
  have d: "map_option attempts (get_job ''d'' (run env0 cfg0 7 5 enqueued_world)) = Some 1"
    unfolding get_job_def r by (simp add: s3_world_eq)
  from a b c d show ?thesis by blast
qed

text \<open>
  C1, amended. On every failing execution the worker compares the attempts count, already
  incremented for this execution, with \<open>max_retries\<close>: strictly less schedules a retry
  (state pending, \<open>retry_at\<close> set, no dead-letter entry written), greater or equal moves
  the job to dead with a dead-letter entry whose reason is \<open>Max retries exceeded: \<close>
  followed by the error. Hence a job enqueued with \<open>max_retries = 1\<close> into the empty
  store whose command fails is executed once: after any positive number of iterations of
  one worker whose lease and pid are 64-bit integers it is dead with \<open>attempts = 1\<close>
  and one such dead-letter entry.
\<close>

theorem failure_retries_or_dead:
  "(get_job (job_id job) w = Some j \<and>
    fst (execute_command e (Suc (ticks w)) (command job)) \<noteq> 0 \<and>
    int (attempts j + 1) < max_retries j \<and>
    datetime_min \<le> clock e (ticks w + 4) + 1000000 *
       calculate_backoff (attempts j + 1) (backoff_base cfg) (max_backoff_seconds cfg) \<and>
    clock e (ticks w + 4) + 1000000 *
       calculate_backoff (attempts j + 1) (backoff_base cfg) (max_backoff_seconds cfg)
      \<le> datetime_max \<longrightarrow>
      fst (execute_job e cfg job w) = None \<and>
      map_option state (get_job (job_id job) (snd (execute_job e cfg job w))) = Some Pending \<and>
      map_option attempts (get_job (job_id job) (snd (execute_job e cfg job w))) =
        Some (attempts j + 1) \<and>
      map_option retry_at (get_job (job_id job) (snd (execute_job e cfg job w))) =
        Some (Some (clock e (ticks w + 4) + 1000000 *
          calculate_backoff (attempts j + 1) (backoff_base cfg) (max_backoff_seconds cfg))) \<and>
      dlq (snd (execute_job e cfg job w)) = dlq w) \<and>
   (get_job (job_id job) w = Some j \<and>
    fst (execute_command e (Suc (ticks w)) (command job)) \<noteq> 0 \<and>
    max_retries j \<le> int (attempts j + 1) \<and>
    find (\<lambda>d. dlq_id d = uuid4 e (ticks w + 5)) (dlq w) = None \<longrightarrow>
      fst (execute_job e cfg job w) = None \<and>
      map_option state (get_job (job_id job) (snd (execute_job e cfg job w))) = Some Dead \<and>
      map_option attempts (get_job (job_id job) (snd (execute_job e cfg job w))) =
        Some (attempts j + 1) \<and>
      map dlq_job_id (dlq (snd (execute_job e cfg job w))) =
        map dlq_job_id (dlq w) @ [job_id job] \<and>
      map reason (dlq (snd (execute_job e cfg job w))) =
        map reason (dlq w) @
          [''Max retries exceeded: Exit code '' @
           str_int (fst (execute_command e (Suc (ticks w)) (command job))) @ '': '' @
           snd (snd (execute_command e (Suc (ticks w)) (command job)))]) \<and>
   (fst (execute_command e 4 cmd) \<noteq> 0 \<and> 0 < n \<and>
    fits_int64 (lock_lease_seconds cfg) \<and> fits_int64 pid \<longrightarrow>
      map state (jobs (run e cfg pid n (snd (insert_job e jid cmd 1 0 None empty_world)))) =
        [Dead] \<and>
      map attempts (jobs (run e cfg pid n (snd (insert_job e jid cmd 1 0 None empty_world)))) =
        [1] \<and>
      map dlq_job_id (dlq (run e cfg pid n (snd (insert_job e jid cmd 1 0 None empty_world)))) =
        [jid] \<and>
      map reason (dlq (run e cfg pid n (snd (insert_job e jid cmd 1 0 None empty_world)))) =
        [''Max retries exceeded: Exit code '' @ str_int (fst (execute_command e 4 cmd)) @
         '': '' @ snd (snd (execute_command e 4 cmd))])"
  (is "?retry \<and> ?dead \<and> ?s3")
proof (intro conjI)
  have t: "ticks w + 4 = Suc (Suc (Suc (Suc (ticks w))))"
    "ticks w + 5 = Suc (Suc (Suc (Suc (Suc (ticks w)))))" by simp_all
  show ?retry
    unfolding t
    by (simp add: execute_job_def handle_job_failure_def
      increment_job_attempts_def update_job_output_def update_job_state_def
      unlock_job_def update_job_error_def set_job_retry_at_def
      calculate_retry_at_def run_command_def now_timestamp_def
      get_job_def find_update_jobs Let_def split_def)
  show ?dead
    unfolding t
    by (simp add: execute_job_def handle_job_failure_def
      increment_job_attempts_def update_job_output_def update_job_state_def
      update_job_error_def move_to_dlq_def new_uuid_def
      run_command_def now_timestamp_def
      get_job_def find_update_jobs Let_def split_def)
  show ?s3
  proof (intro impI, elim conjE)
    assume f: "fst (execute_command e 4 cmd) \<noteq> 0" and n: "0 < n"
      and l: "fits_int64 (lock_lease_seconds cfg)" and p: "fits_int64 pid"
    let ?w0 = "snd (insert_job e jid cmd 1 0 None empty_world)"
    let ?w1 = "snd (process_one_job e cfg pid ?w0)"
    from n obtain m where m: "n = Suc m" by (cases n) auto
    note s = single_job_first_failure [OF f l p, where jid = jid]
    have "\<forall>j\<in>set (jobs ?w1). state j \<noteq> Pending"
    proof
      fix j assume "j \<in> set (jobs ?w1)"
      then have "state j \<in> set (map state (jobs ?w1))" by simp
      with s show "state j \<noteq> Pending" by simp
    qed
    from run_idle [OF this, of e cfg pid m]
    have "jobs (run e cfg pid n ?w0) = jobs ?w1" "dlq (run e cfg pid n ?w0) = dlq ?w1"
      unfolding m by simp_all
    with s show "map state (jobs (run e cfg pid n ?w0)) = [Dead] \<and>
      map attempts (jobs (run e cfg pid n ?w0)) = [1] \<and>
      map dlq_job_id (dlq (run e cfg pid n ?w0)) = [jid] \<and>
      map reason (dlq (run e cfg pid n ?w0)) =
        [''Max retries exceeded: Exit code '' @ str_int (fst (execute_command e 4 cmd)) @
         '': '' @ snd (snd (execute_command e 4 cmd))]"
      by simp
  qed
qed

theorem failure_retries_or_dead_witness:
  "get_job (job_id picked_r) claimed_world = Some picked_r \<and>
   fst (execute_command env0 (Suc (ticks claimed_world)) (command picked_r)) \<noteq> 0 \<and>
   int (attempts picked_r + 1) < max_retries picked_r \<and>
   map_option state (get_job ''r'' (snd (execute_job env0 cfg0 picked_r claimed_world))) =
     Some Pending \<and>
   get_job (job_id picked_d) claimed_d_world = Some picked_d \<and>
   fst (execute_command env0 (Suc (ticks claimed_d_world)) (command picked_d)) \<noteq> 0 \<and>
   max_retries picked_d \<le> int (attempts picked_d + 1) \<and>
   map_option state (get_job ''d'' (snd (execute_job env0 cfg0 picked_d claimed_d_world))) =
     Some Dead \<and>
   fst (execute_command env0 4 ''false'') \<noteq> 0 \<and> (0::nat) < 3 \<and>
   fits_int64 (lock_lease_seconds cfg0) \<and> fits_int64 7 \<and>
   map state (jobs (run env0 cfg0 7 3 enqueued_world)) = [Dead] \<and>
   map attempts (jobs (run env0 cfg0 7 3 enqueued_world)) = [1] \<and>
   map reason (dlq (run env0 cfg0 7 3 enqueued_world)) =
     [''Max retries exceeded: Exit code 1: boom'']"
proof -
  have r1: "get_job (job_id picked_r) claimed_world = Some picked_r"
    by (simp add: claimed_world_eq get_job_def)
  have r2: "fst (execute_command env0 (Suc (ticks claimed_world)) (command picked_r)) \<noteq> 0"
    by (simp add: env0_def)
  have r3: "int (attempts picked_r + 1) < max_retries picked_r"
    by (simp add: picked_r_def)
  have r4: "datetime_min \<le> clock env0 (ticks claimed_world + 4) + 1000000 *
       calculate_backoff (attempts picked_r + 1) (backoff_base cfg0) (max_backoff_seconds cfg0)"
    "clock env0 (ticks claimed_world + 4) + 1000000 *
       calculate_backoff (attempts picked_r + 1) (backoff_base cfg0) (max_backoff_seconds cfg0)
      \<le> datetime_max"
    by (simp_all add: claimed_world_eq env0_def cfg0_def picked_r_def calculate_backoff_def
        datetime_min_def datetime_max_def)
  have idr: "job_id picked_r = ''r''" by (simp add: picked_r_def)
  have r: "map_option state (get_job ''r'' (snd (execute_job env0 cfg0 picked_r claimed_world))) =
     Some Pending"
    using failure_retries_or_dead [where job = picked_r and w = claimed_world and j = picked_r and e = env0
        and cfg = cfg0] r1 r2 r3 r4 idr
    by simp
  have d1: "get_job (job_id picked_d) claimed_d_world = Some picked_d"
    by (simp add: claimed_d_world_eq get_job_def)
  have d2: "fst (execute_command env0 (Suc (ticks claimed_d_world)) (command picked_d)) \<noteq> 0"
    by (simp add: env0_def)
  have d3: "max_retries picked_d \<le> int (attempts picked_d + 1)"
    by (simp add: picked_d_def)
  have d4: "find (\<lambda>d. dlq_id d = uuid4 env0 (ticks claimed_d_world + 5)) (dlq claimed_d_world) = None"
    by (simp add: claimed_d_world_eq)
  have idd: "job_id picked_d = ''d''" by (simp add: picked_d_def)
  have d: "map_option state (get_job ''d'' (snd (execute_job env0 cfg0 picked_d claimed_d_world))) =
     Some Dead"
    using failure_retries_or_dead [where job = picked_d and w = claimed_d_world and j = picked_d and e = env0
        and cfg = cfg0] d1 d2 d3 d4 idd
    by simp
  have s1: "fst (execute_command env0 4 ''false'') \<noteq> 0" by (simp add: env0_def)
  have s2: "(0::nat) < 3" by simp
  have s3: "fits_int64 (lock_lease_seconds cfg0)" "fits_int64 7"
    by (simp_all add: cfg0_def fits_int64_def)
  have code: "execute_command env0 4 ''false'' = (1, [], ''boom'')" by (simp add: env0_def)
  have s: "map state (jobs (run env0 cfg0 7 3 enqueued_world)) = [Dead] \<and>
   map attempts (jobs (run env0 cfg0 7 3 enqueued_world)) = [1] \<and>
   map reason (dlq (run env0 cfg0 7 3 enqueued_world)) =
     [''Max retries exceeded: Exit code 1: boom'']"
    using failure_retries_or_dead [where e = env0 and cmd = "''false''" and n = 3 and cfg = cfg0 and pid = 7
        and jid = "''d''"] s1 s2 s3
    by (simp add: enqueued_world_def code str_int_def)
  from r1 r2 r3 r d1 d2 d3 d s1 s2 s3 s show ?thesis by blast
qed

section \<open>Locks of finished jobs\<close>

text \<open>
  C2. A job whose state is completed or dead should have \<open>locked_by\<close> and \<open>locked_at\<close>
  null. The dead-letter path of \<open>_handle_job_failure\<close> calls \<open>move_to_dlq\<close> only, which
  does not touch the lock: the job of scenario S3 ends dead and still locked by worker 7.
\<close>

theorem dead_job_keeps_lock:
  "map_option state (get_job ''d'' (snd (process_one_job env0 cfg0 7 enqueued_world))) = Some Dead \<and>
   map_option locked_by (get_job ''d'' (snd (process_one_job env0 cfg0 7 enqueued_world))) =
     Some (Some 7) \<and>
   map_option locked_at (get_job ''d'' (snd (process_one_job env0 cfg0 7 enqueued_world))) =
     Some (Some 2000000)"
  by (simp add: s3_world_eq get_job_def)

section \<open>Dead-letter entries per job\<close>

lemma dlq_inv_flags:
  "dlq_inv w \<longleftrightarrow>
     (\<forall>(jid, dead)\<in>set (dead_flags w).
        length (filter (\<lambda>x. x = jid) (dlq_owners w)) = (if dead then 1 else 0))"
  by (auto simp add: dlq_inv_def dead_flags_def dlq_owners_def dlq_count_def filter_map comp_def)

lemma not_dead_flags: "not_dead jid w \<longleftrightarrow> (jid, True) \<notin> set (dead_flags w)"
  by (auto simp add: not_dead_def dead_flags_def)

lemma dlq_inv_cong:
  "dead_flags w' = dead_flags w \<Longrightarrow> dlq_owners w' = dlq_owners w \<Longrightarrow> dlq_inv w' = dlq_inv w"
  by (simp add: dlq_inv_flags)

lemma not_dead_cong: "dead_flags w' = dead_flags w \<Longrightarrow> not_dead jid w' = not_dead jid w"
  by (simp add: not_dead_flags)

lemma dead_flags_update_jobs:
  assumes "\<And>j. job_id (f j) = job_id j"
    and "\<And>j. j \<in> set js \<Longrightarrow> job_id j = jid \<Longrightarrow> (state (f j) = Dead) = (state j = Dead)"
  shows "map (\<lambda>j. (job_id j, state j = Dead)) (update_jobs jid f js) =
         map (\<lambda>j. (job_id j, state j = Dead)) js"
  using assms by (induction js) (simp_all add: update_jobs_def)

lemma flags_increment [simp]: "dead_flags (increment_job_attempts e jid w) = dead_flags w"
  by (simp add: increment_job_attempts_def now_timestamp_def dead_flags_def dead_flags_update_jobs)

lemma flags_output [simp]: "dead_flags (update_job_output e jid out err c w) = dead_flags w"
  by (simp add: update_job_output_def now_timestamp_def dead_flags_def dead_flags_update_jobs)

lemma flags_error [simp]: "dead_flags (update_job_error e jid err w) = dead_flags w"
  by (simp add: update_job_error_def now_timestamp_def dead_flags_def dead_flags_update_jobs)

lemma flags_retry_at [simp]: "dead_flags (set_job_retry_at e jid r w) = dead_flags w"
  by (simp add: set_job_retry_at_def now_timestamp_def dead_flags_def dead_flags_update_jobs)

lemma flags_unlock [simp]: "dead_flags (unlock_job e jid w) = dead_flags w"
  by (simp add: unlock_job_def now_timestamp_def dead_flags_def dead_flags_update_jobs)

lemma flags_completed_at [simp]: "dead_flags (update_job_completed_at e jid w) = dead_flags w"
  by (simp add: update_job_completed_at_def now_timestamp_def dead_flags_def dead_flags_update_jobs)

lemma flags_state:
  "not_dead jid w \<Longrightarrow> st \<noteq> Dead \<Longrightarrow> dead_flags (update_job_state e jid st w) = dead_flags w"
  by (simp add: update_job_state_def now_timestamp_def dead_flags_def dead_flags_update_jobs
      not_dead_def)

lemma flags_run_command [simp]: "dead_flags (snd (run_command e cmd w)) = dead_flags w"
  by (simp add: run_command_def dead_flags_def)

lemma flags_calculate_retry_at [simp]:
  "dead_flags (snd (calculate_retry_at e a b m w)) = dead_flags w"
  by (simp add: calculate_retry_at_def now_timestamp_def dead_flags_def Let_def)

lemma owners_increment [simp]: "dlq_owners (increment_job_attempts e jid w) = dlq_owners w"
  by (simp add: increment_job_attempts_def now_timestamp_def dlq_owners_def)

lemma owners_output [simp]: "dlq_owners (update_job_output e jid out err c w) = dlq_owners w"
  by (simp add: update_job_output_def now_timestamp_def dlq_owners_def)

lemma owners_error [simp]: "dlq_owners (update_job_error e jid err w) = dlq_owners w"
  by (simp add: update_job_error_def now_timestamp_def dlq_owners_def)

lemma owners_retry_at [simp]: "dlq_owners (set_job_retry_at e jid r w) = dlq_owners w"
  by (simp add: set_job_retry_at_def now_timestamp_def dlq_owners_def)

lemma owners_unlock [simp]: "dlq_owners (unlock_job e jid w) = dlq_owners w"
  by (simp add: unlock_job_def now_timestamp_def dlq_owners_def)

lemma owners_completed_at [simp]: "dlq_owners (update_job_completed_at e jid w) = dlq_owners w"
  by (simp add: update_job_completed_at_def now_timestamp_def dlq_owners_def)

lemma owners_state [simp]: "dlq_owners (update_job_state e jid st w) = dlq_owners w"
  by (simp add: update_job_state_def now_timestamp_def dlq_owners_def)

lemma owners_run_command [simp]: "dlq_owners (snd (run_command e cmd w)) = dlq_owners w"
  by (simp add: run_command_def dlq_owners_def)

lemma owners_calculate_retry_at [simp]:
  "dlq_owners (snd (calculate_retry_at e a b m w)) = dlq_owners w"
  by (simp add: calculate_retry_at_def now_timestamp_def dlq_owners_def Let_def)

lemma dlq_inv_same_id:
  "dlq_inv w \<Longrightarrow> j \<in> set (jobs w) \<Longrightarrow> state j \<noteq> Dead \<Longrightarrow> not_dead (job_id j) w"
  unfolding dlq_inv_def not_dead_def
  by (metis One_nat_def zero_neq_one)

lemma move_to_dlq_raises:
  "fst (move_to_dlq e jid why w) \<noteq> None \<Longrightarrow>
   dead_flags (snd (move_to_dlq e jid why w)) = dead_flags w \<and>
   dlq_owners (snd (move_to_dlq e jid why w)) = dlq_owners w"
  by (auto simp add: move_to_dlq_def now_timestamp_def new_uuid_def dead_flags_def
      dlq_owners_def Let_def split: option.splits if_splits)

lemma count_after_delete_other:
  "a \<noteq> b \<Longrightarrow>
   filter (\<lambda>d. dlq_job_id d = a) (filter (\<lambda>d. dlq_job_id d \<noteq> b) xs) =
   filter (\<lambda>d. dlq_job_id d = a) xs"
  by (induction xs) simp_all

lemma count_after_delete_same:
  "filter (\<lambda>d. dlq_job_id d = b) (filter (\<lambda>d. dlq_job_id d \<noteq> b) xs) = []"
  by (induction xs) simp_all

lemma dlq_inv_move_to_dlq:
  assumes inv: "dlq_inv w" and nd: "not_dead jid w"
  shows "dlq_inv (snd (move_to_dlq e jid why w))"
proof (cases "fst (move_to_dlq e jid why w) = None \<and> get_job jid w \<noteq> None")
  case False
  then have "dead_flags (snd (move_to_dlq e jid why w)) = dead_flags w \<and>
    dlq_owners (snd (move_to_dlq e jid why w)) = dlq_owners w"
    using move_to_dlq_raises [of e jid why w]
    by (cases "get_job jid w") (auto simp add: move_to_dlq_def)
  then show ?thesis using inv dlq_inv_cong by blast
next
  case True
  then obtain job where job: "get_job jid w = Some job" by auto
  let ?now = "clock e (ticks w)"
  let ?did = "uuid4 e (Suc (ticks w))"
  have fresh: "find (\<lambda>d. dlq_id d = ?did) (dlq w) = None"
    using True job
    by (auto simp add: move_to_dlq_def now_timestamp_def new_uuid_def Let_def split: if_splits)
  have j': "jobs (snd (move_to_dlq e jid why w)) =
      update_jobs jid (\<lambda>j. j\<lparr>state := Dead, updated_at := ?now\<rparr>) (jobs w)"
    and d': "dlq (snd (move_to_dlq e jid why w)) = dlq w @
      [\<lparr>dlq_id = ?did, dlq_job_id = jid, moved_at = ?now, reason = why, payload = job\<rparr>]"
    using fresh job
    by (simp_all add: move_to_dlq_def now_timestamp_def new_uuid_def Let_def)
  show ?thesis
    unfolding dlq_inv_def dlq_count_def j' d'
  proof
    fix x assume "x \<in> set (update_jobs jid (\<lambda>j. j\<lparr>state := Dead, updated_at := ?now\<rparr>) (jobs w))"
    then obtain j where j: "j \<in> set (jobs w)"
      and x: "x = (if job_id j = jid then j\<lparr>state := Dead, updated_at := ?now\<rparr> else j)"
      by (auto simp add: update_jobs_def)
    have old: "length (filter (\<lambda>d. dlq_job_id d = job_id j) (dlq w)) =
               (if state j = Dead then 1 else 0)"
      using inv j by (simp add: dlq_inv_def dlq_count_def)
    show "length (filter (\<lambda>d. dlq_job_id d = job_id x) (dlq w @
      [\<lparr>dlq_id = ?did, dlq_job_id = jid, moved_at = ?now, reason = why, payload = job\<rparr>])) =
      (if state x = Dead then 1 else 0)"
    proof (cases "job_id j = jid")
      case True
      then have "state j \<noteq> Dead" using nd j by (simp add: not_dead_def)
      with old True x show ?thesis by simp
    next
      case False
      with old x show ?thesis by simp
    qed
  qed
qed

lemma dlq_inv_requeue:
  assumes inv: "dlq_inv w"
  shows "dlq_inv (snd (requeue_from_dlq e jid w))"
proof (cases "get_dlq_job jid w")
  case None
  then show ?thesis using inv by (simp add: requeue_from_dlq_def)
next
  case (Some entry)
  let ?f = "\<lambda>j. j\<lparr>state := Pending, attempts := 0, locked_by := None, locked_at := None,
                     retry_at := None, updated_at := clock e (ticks w)\<rparr>"
  have j': "jobs (snd (requeue_from_dlq e jid w)) = update_jobs jid ?f (jobs w)"
    and d': "dlq (snd (requeue_from_dlq e jid w)) = filter (\<lambda>d. dlq_job_id d \<noteq> jid) (dlq w)"
    using Some by (simp_all add: requeue_from_dlq_def now_timestamp_def)
  show ?thesis
    unfolding dlq_inv_def dlq_count_def j' d'
  proof
    fix x assume "x \<in> set (update_jobs jid ?f (jobs w))"
    then obtain j where j: "j \<in> set (jobs w)"
      and x: "x = (if job_id j = jid then ?f j else j)"
      by (auto simp add: update_jobs_def)
    have old: "length (filter (\<lambda>d. dlq_job_id d = job_id j) (dlq w)) =
               (if state j = Dead then 1 else 0)"
      using inv j by (simp add: dlq_inv_def dlq_count_def)
    show "length (filter (\<lambda>d. dlq_job_id d = job_id x)
             (filter (\<lambda>d. dlq_job_id d \<noteq> jid) (dlq w))) = (if state x = Dead then 1 else 0)"
    proof (cases "job_id j = jid")
      case True
      with x show ?thesis by (simp add: count_after_delete_same del: filter_filter)
    next
      case False
      with old x show ?thesis by (simp add: count_after_delete_other del: filter_filter)
    qed
  qed
qed

lemma success_keeps_flags:
  "not_dead jid w \<Longrightarrow>
   dead_flags (handle_job_success e jid out w) = dead_flags w \<and>
   dlq_owners (handle_job_success e jid out w) = dlq_owners w"
  by (simp add: handle_job_success_def flags_state)

lemma dlq_inv_handle_job_failure:
  assumes inv: "dlq_inv w" and nd: "not_dead jid w"
  shows "dlq_inv (snd (handle_job_failure e cfg jid job0 err w)) \<and>
         (fst (handle_job_failure e cfg jid job0 err w) \<noteq> None \<longrightarrow>
            not_dead jid (snd (handle_job_failure e cfg jid job0 err w)))"
proof (cases "get_job jid w")
  case None
  then show ?thesis using inv nd by (simp add: handle_job_failure_def)
next
  case (Some job)
  let ?w1 = "update_job_error e jid err w"
  have inv1: "dlq_inv ?w1" using inv dlq_inv_cong [of ?w1 w] by simp
  have nd1: "not_dead jid ?w1" using nd not_dead_cong [of ?w1 w] by simp
  show ?thesis
  proof (cases "int (attempts job) < max_retries job")
    case False
    let ?r = "move_to_dlq e jid (''Max retries exceeded: '' @ err) ?w1"
    have eq: "handle_job_failure e cfg jid job0 err w = ?r"
      using Some False by (simp add: handle_job_failure_def Let_def)
    have "fst ?r \<noteq> None \<longrightarrow> not_dead jid (snd ?r)"
      using move_to_dlq_raises [of e jid _ ?w1] nd1 not_dead_cong by blast
    then show ?thesis
      unfolding eq using dlq_inv_move_to_dlq [OF inv1 nd1] by blast
  next
    case True
    let ?c = "calculate_retry_at e (attempts job) (backoff_base cfg) (max_backoff_seconds cfg) ?w1"
    have fc: "dead_flags (snd ?c) = dead_flags w" "dlq_owners (snd ?c) = dlq_owners w"
      by simp_all
    show ?thesis
    proof (cases "fst ?c")
      case (Inl ex)
      then have eq: "handle_job_failure e cfg jid job0 err w = (Some ex, snd ?c)"
        using Some True by (simp add: handle_job_failure_def Let_def split_def)
      show ?thesis
        unfolding eq using fc inv nd dlq_inv_cong [of "snd ?c" w] not_dead_cong [of "snd ?c" w]
        by simp
    next
      case (Inr r)
      let ?w3 = "set_job_retry_at e jid r (snd ?c)"
      let ?w5 = "unlock_job e jid (update_job_state e jid Pending ?w3)"
      have eq: "handle_job_failure e cfg jid job0 err w = (None, ?w5)"
        using Some True Inr by (simp add: handle_job_failure_def Let_def split_def)
      have nd3: "not_dead jid ?w3" using nd fc not_dead_cong [of ?w3 w] by simp
      have "dead_flags ?w5 = dead_flags w" "dlq_owners ?w5 = dlq_owners w"
        using fc nd3 by (simp_all add: flags_state)
      then show ?thesis
        unfolding eq using inv dlq_inv_cong [of ?w5 w] by simp
    qed
  qed
qed

lemma dlq_inv_execute_job:
  assumes inv: "dlq_inv w" and nd: "not_dead (job_id job) w"
  shows "dlq_inv (snd (execute_job e cfg job w)) \<and>
         (fst (execute_job e cfg job w) \<noteq> None \<longrightarrow>
            not_dead (job_id job) (snd (execute_job e cfg job w)))"
proof -
  let ?jid = "job_id job"
  let ?w1 = "increment_job_attempts e ?jid w"
  let ?rc = "run_command e (command job) ?w1"
  let ?code = "fst (fst ?rc)" and ?out = "fst (snd (fst ?rc))" and ?err = "snd (snd (fst ?rc))"
  let ?w3 = "update_job_output e ?jid ?out ?err ?code (snd ?rc)"
  have f3: "dead_flags ?w3 = dead_flags w" "dlq_owners ?w3 = dlq_owners w" by simp_all
  have inv3: "dlq_inv ?w3" using f3 inv dlq_inv_cong [of ?w3 w] by simp
  have nd3: "not_dead ?jid ?w3" using f3 nd not_dead_cong [of ?w3 w] by simp
  show ?thesis
  proof (cases "?code = 0")
    case True
    then have eq: "execute_job e cfg job w = (None, handle_job_success e ?jid ?out ?w3)"
      by (simp add: execute_job_def Let_def split_def)
    show ?thesis
      unfolding eq
      using success_keeps_flags [OF nd3, of e ?out] inv3
        dlq_inv_cong [of "handle_job_success e ?jid ?out ?w3" ?w3]
      by simp
  next
    case False
    then have eq: "execute_job e cfg job w =
        handle_job_failure e cfg ?jid job (''Exit code '' @ str_int ?code @ '': '' @ ?err) ?w3"
      by (simp add: execute_job_def Let_def split_def)
    show ?thesis
      unfolding eq using dlq_inv_handle_job_failure [OF inv3 nd3] by blast
  qed
qed

lemma dlq_inv_handle_job_error:
  assumes inv: "dlq_inv w" and nd: "not_dead jid w"
  shows "dlq_inv (snd (handle_job_error e cfg jid err w))"
  using dlq_inv_handle_job_failure [OF inv nd] inv
  by (simp add: handle_job_error_def split: option.splits)

lemma dlq_inv_pick_pending_job:
  assumes inv: "dlq_inv w"
  shows "dlq_inv (snd (pick_pending_job e pid lease w)) \<and>
         (\<forall>picked. fst (pick_pending_job e pid lease w) = Some picked \<longrightarrow>
            not_dead (job_id picked) (snd (pick_pending_job e pid lease w)))"
proof (cases "in_transaction w \<or> \<not> fits_int64 lease")
  case True
  then have "fst (pick_pending_job e pid lease w) = None"
    "dead_flags (snd (pick_pending_job e pid lease w)) = dead_flags w"
    "dlq_owners (snd (pick_pending_job e pid lease w)) = dlq_owners w"
    by (auto simp add: pick_pending_job_def dead_flags_def dlq_owners_def)
  then show ?thesis
    using inv dlq_inv_cong [of "snd (pick_pending_job e pid lease w)" w] by simp
next
  case False
  then have ok: "\<not> in_transaction w" "fits_int64 lease" by simp_all
  show ?thesis
  proof (cases "select_job lease (clock e (ticks w)) (jobs w)")
    case None
    then have "pick_pending_job e pid lease w = (None, w\<lparr>ticks := Suc (ticks w)\<rparr>)"
      using ok by (simp add: pick_pending_job_def sqlite_now_def)
    moreover have "dlq_inv (w\<lparr>ticks := Suc (ticks w)\<rparr>)"
      using inv dlq_inv_cong [of "w\<lparr>ticks := Suc (ticks w)\<rparr>" w]
      by (simp add: dead_flags_def dlq_owners_def)
    ultimately show ?thesis by simp
  next
    case (Some jid)
    show ?thesis
    proof (cases "fits_int64 pid")
      case False
      then have "pick_pending_job e pid lease w = (None, w\<lparr>ticks := Suc (Suc (ticks w))\<rparr>)"
        using ok Some
        by (simp add: pick_pending_job_def sqlite_now_def now_timestamp_def)
      moreover have "dlq_inv (w\<lparr>ticks := Suc (Suc (ticks w))\<rparr>)"
        using inv dlq_inv_cong [of "w\<lparr>ticks := Suc (Suc (ticks w))\<rparr>" w]
        by (simp add: dead_flags_def dlq_owners_def)
      ultimately show ?thesis by simp
    next
      case True
      from select_job_Some [OF Some] obtain j where j: "j \<in> set (jobs w)" "job_id j = jid"
        "eligible lease (clock e (ticks w)) j" by blast
      then have "state j \<noteq> Dead" by (simp add: eligible_def)
      from dlq_inv_same_id [OF inv j(1) this] have nd: "not_dead jid w" using j(2) by simp
      let ?f = "\<lambda>j. j\<lparr>locked_by := Some pid, locked_at := Some (clock e (Suc (ticks w))),
                         state := Processing, updated_at := clock e (Suc (ticks w))\<rparr>"
      let ?w3 = "w\<lparr>ticks := Suc (Suc (ticks w)), jobs := update_jobs jid ?f (jobs w)\<rparr>"
      have eq: "pick_pending_job e pid lease w = (get_job jid ?w3, ?w3)"
        using Some ok True
        by (simp add: pick_pending_job_def sqlite_now_def now_timestamp_def Let_def)
      have fl: "dead_flags ?w3 = dead_flags w" "dlq_owners ?w3 = dlq_owners w"
        using nd
        by (simp_all add: dead_flags_def dlq_owners_def dead_flags_update_jobs not_dead_def)
      have pid: "job_id picked = jid" if "get_job jid ?w3 = Some picked" for picked
        using that by (auto simp add: get_job_def find_Some_iff)
      show ?thesis
        unfolding eq
        using fl inv nd dlq_inv_cong [of ?w3 w] not_dead_cong [of ?w3 w jid] pid by auto
    qed
  qed
qed

lemma dlq_inv_process_one_job:
  assumes inv: "dlq_inv w"
  shows "dlq_inv (snd (process_one_job e cfg pid w))"
proof (cases "fst (pick_pending_job e pid (lock_lease_seconds cfg) w)")
  case None
  then show ?thesis
    using dlq_inv_pick_pending_job [OF inv, of e pid "lock_lease_seconds cfg"]
    by (simp add: process_one_job_def split_def)
next
  case (Some job)
  let ?w1 = "snd (pick_pending_job e pid (lock_lease_seconds cfg) w)"
  have inv1: "dlq_inv ?w1" and nd1: "not_dead (job_id job) ?w1"
    using dlq_inv_pick_pending_job [OF inv, of e pid "lock_lease_seconds cfg"] Some by auto
  note x = dlq_inv_execute_job [OF inv1 nd1, of e cfg]
  show ?thesis
  proof (cases "fst (execute_job e cfg job ?w1)")
    case None
    then show ?thesis using Some x by (simp add: process_one_job_def split_def)
  next
    case (Some ex)
    then have "dlq_inv (snd (handle_job_error e cfg (job_id job) (str_error ex)
                 (snd (execute_job e cfg job ?w1))))"
      using x dlq_inv_handle_job_error by simp
    then show ?thesis
      using Some \<open>fst (pick_pending_job e pid (lock_lease_seconds cfg) w) = Some job\<close>
      by (simp add: process_one_job_def split_def)
  qed
qed

lemma dlq_inv_run: "dlq_inv w \<Longrightarrow> dlq_inv (run e cfg pid n w)"
  by (induction n arbitrary: w) (simp_all add: dlq_inv_process_one_job)

lemma dlq_inv_promote:
  "dlq_inv w \<Longrightarrow> dlq_inv (snd (move_ready_jobs_to_pending e w))"
proof -
  have "dead_flags (snd (move_ready_jobs_to_pending e w)) = dead_flags w"
    by (simp add: move_ready_jobs_to_pending_def sqlite_now_def promote_rows_def dead_flags_def
        retry_ready_def)
  moreover have "dlq_owners (snd (move_ready_jobs_to_pending e w)) = dlq_owners w"
    by (simp add: move_ready_jobs_to_pending_def sqlite_now_def dlq_owners_def)
  ultimately show "dlq_inv w \<Longrightarrow> dlq_inv (snd (move_ready_jobs_to_pending e w))"
    using dlq_inv_cong by blast
qed

lemma move_to_dlq_adds_entry:
  assumes "get_job jid w \<noteq> None"
    and "find (\<lambda>d. dlq_id d = uuid4 e (Suc (ticks w))) (dlq w) = None"
  shows "fst (move_to_dlq e jid why w) = None \<and>
         dlq_count jid (snd (move_to_dlq e jid why w)) = dlq_count jid w + 1 \<and>
         map_option state (get_job jid (snd (move_to_dlq e jid why w))) = Some Dead"
  using assms
  by (auto simp add: move_to_dlq_def now_timestamp_def new_uuid_def Let_def dlq_count_def
      get_job_def find_update_jobs)

text \<open>
  C9, as the specification states it, fails: \<open>move_to_dlq\<close> does not look at the state of
  the job. Called on the dead job \<open>d\<close>, which has one dead-letter entry, it inserts a
  second one.
\<close>

theorem dead_job_moved_again_counterexample:
  "map_option state (get_job ''d'' dead_world) = Some Dead \<and>
   dlq_count ''d'' dead_world = 1 \<and>
   fst (move_to_dlq env0 ''d'' ''again'' dead_world) = None \<and>
   dlq_count ''d'' (snd (move_to_dlq env0 ''d'' ''again'' dead_world)) = 2 \<and>
   map_option state (get_job ''d'' (snd (move_to_dlq env0 ''d'' ''again'' dead_world))) =
     Some Dead"
  by (simp add: dead_world_eq get_job_def dlq_count_def move_to_dlq_def now_timestamp_def
      new_uuid_def env0_def update_jobs_def)

text \<open>
  C9, amended. \<open>move_to_dlq\<close> on an existing job, whatever its state, inserts one more
  dead-letter entry and sets the state to dead. The worker calls it only for the job it
  has claimed, which is not dead; so the property that each job in state dead has exactly
  one dead-letter entry and a job in any other state has none is kept by the claim, by
  every iteration of the worker loop (success, retry, dead-letter move), by requeue and
  by retry-ready promotion, and by \<open>move_to_dlq\<close> itself on a job that is not dead.
\<close>

theorem dead_letter_entries:
  "(get_job jid w \<noteq> None \<and>
    find (\<lambda>d. dlq_id d = uuid4 e (Suc (ticks w))) (dlq w) = None \<longrightarrow>
      fst (move_to_dlq e jid why w) = None \<and>
      dlq_count jid (snd (move_to_dlq e jid why w)) = dlq_count jid w + 1 \<and>
      map_option state (get_job jid (snd (move_to_dlq e jid why w))) = Some Dead) \<and>
   (dlq_inv w \<and> not_dead jid w \<longrightarrow> dlq_inv (snd (move_to_dlq e jid why w))) \<and>
   (dlq_inv w \<longrightarrow>
      dlq_inv (snd (pick_pending_job e pid lease w)) \<and>
      dlq_inv (snd (process_one_job e cfg pid w)) \<and>
      dlq_inv (run e cfg pid n w) \<and>
      dlq_inv (snd (requeue_from_dlq e jid w)) \<and>
      dlq_inv (snd (move_ready_jobs_to_pending e w)))"
  using move_to_dlq_adds_entry [of jid w e why] dlq_inv_move_to_dlq [of w jid e why]
    dlq_inv_pick_pending_job [of w e pid lease] dlq_inv_process_one_job [of w e cfg pid]
    dlq_inv_run [of w e cfg pid n] dlq_inv_requeue [of w e jid] dlq_inv_promote [of w e]
  by blast

theorem dead_letter_entries_witness:
  "get_job ''d'' dead_world \<noteq> None \<and>
   find (\<lambda>d. dlq_id d = uuid4 env0 (Suc (ticks dead_world))) (dlq dead_world) = None \<and>
   dlq_count ''d'' (snd (move_to_dlq env0 ''d'' ''again'' dead_world)) = 2 \<and>
   dlq_inv claimed_d_world \<and> not_dead ''d'' claimed_d_world \<and>
   dlq_inv (snd (move_to_dlq env0 ''d'' ''gone'' claimed_d_world)) \<and>
   dlq_inv enqueued_world \<and>
   dlq_inv (run env0 cfg0 7 3 enqueued_world) \<and>
   dlq_inv dead_world \<and>
   dlq_inv (snd (requeue_from_dlq env0 ''d'' dead_world))"
proof -
  have h1: "get_job ''d'' dead_world \<noteq> None" by (simp add: dead_world_eq get_job_def)
  have h2: "find (\<lambda>d. dlq_id d = uuid4 env0 (Suc (ticks dead_world))) (dlq dead_world) = None"
    by (simp add: dead_world_eq env0_def)
  have c: "dlq_count ''d'' dead_world = 1" by (simp add: dead_world_eq dlq_count_def)
  have h3: "dlq_inv claimed_d_world" "not_dead ''d'' claimed_d_world"
    by (simp_all add: claimed_d_world_eq picked_d_def dlq_inv_def dlq_count_def not_dead_def)
  have h4: "dlq_inv enqueued_world"
    by (simp add: enqueued_world_eq dlq_inv_def dlq_count_def)
  have h5: "dlq_inv dead_world"
    by (simp add: dead_world_eq dlq_inv_def dlq_count_def)
  have a: "dlq_count ''d'' (snd (move_to_dlq env0 ''d'' ''again'' dead_world)) = 2"
    using dead_letter_entries [of "''d''" dead_world env0 "''again''"] h1 h2 c by simp
  have b: "dlq_inv (snd (move_to_dlq env0 ''d'' ''gone'' claimed_d_world))"
    using dead_letter_entries [of "''d''" claimed_d_world env0 "''gone''"] h3 by blast
  have r: "dlq_inv (run env0 cfg0 7 3 enqueued_world)"
    using dead_letter_entries [of _ enqueued_world env0 _ 7 _ cfg0 3] h4 by blast
  have q: "dlq_inv (snd (requeue_from_dlq env0 ''d'' dead_world))"
    using dead_letter_entries [of "''d''" dead_world env0] h5 by blast
  from h1 h2 a h3 b h4 r h5 q show ?thesis by blast
qed

end
